theory Spec2Isabelle
  imports Main
begin

section \<open>Values carried by the WebSocket channels of server.js\<close>

text \<open>
  A request is whatever \<^verbatim>\<open>JSON.parse\<close> returns. The handlers read a few fixed
  properties of it (\<^verbatim>\<open>requestId\<close>, \<^verbatim>\<open>action\<close>, \<^verbatim>\<open>params\<close>, and the fields of
  \<^verbatim>\<open>params\<close>), compare the action with string literals by \<^verbatim>\<open>===\<close>, and pass the
  rest on untouched. Numbers are kept as integers: the handlers never compute with them.
\<close>

datatype json =
    JUndefined
  | JNull
  | JBool bool
  | JNum int
  | JStr string
  | JArr "json list"
  | JObj "(string \<times> json) list"

text \<open>
  Property access \<^verbatim>\<open>v.k\<close>. On \<^verbatim>\<open>undefined\<close> and \<^verbatim>\<open>null\<close> JavaScript throws a
  TypeError (\<open>None\<close>). On an object it yields the property or \<^verbatim>\<open>undefined\<close>
  (an object is the list of its properties; should a name stand twice, the first entry
  is the property). On a string, number, boolean or array it yields \<^verbatim>\<open>undefined\<close>
  for every property name the handlers use.
\<close>

fun getProp :: "json \<Rightarrow> string \<Rightarrow> json option" where
  "getProp JUndefined k = None"
| "getProp JNull k = None"
| "getProp (JObj kvs) k = Some (case map_of kvs k of None \<Rightarrow> JUndefined | Some v \<Rightarrow> v)"
| "getProp (JBool b) k = Some JUndefined"
| "getProp (JNum n) k = Some JUndefined"
| "getProp (JStr s) k = Some JUndefined"
| "getProp (JArr vs) k = Some JUndefined"

text \<open>
  An inbound frame: the number of bytes of its payload on the wire, and the message as
  the handlers see it, that is, its \<^verbatim>\<open>length\<close> and \<^verbatim>\<open>byteLength\<close> properties (a
  string has only the first, an ArrayBuffer only the second, a Buffer both; a missing
  one is \<^verbatim>\<open>undefined\<close>) and what \<^verbatim>\<open>JSON.parse\<close> makes of it (\<open>None\<close> when it
  throws a SyntaxError).
\<close>

record frame =
  wireBytes :: nat
  msg_length :: "nat option"
  msg_byteLength :: "nat option"
  parsed :: "json option"

text \<open>
  A text frame reaches the handler as a string, whose \<^verbatim>\<open>length\<close> counts UTF-16 code
  units: each unit stands for one to three bytes of the UTF-8 payload. A binary frame
  reaches it as a Buffer or an ArrayBuffer, measured in bytes.
\<close>

definition isText :: "frame \<Rightarrow> bool" where
  "isText msg \<longleftrightarrow>
     msg_byteLength msg = None \<and>
     (case msg_length msg of
        None \<Rightarrow> False
      | Some units \<Rightarrow> units \<le> wireBytes msg \<and> wireBytes msg \<le> 3 * units)"

definition isBinary :: "frame \<Rightarrow> bool" where
  "isBinary msg \<longleftrightarrow>
     msg_byteLength msg = Some (wireBytes msg) \<and>
     (msg_length msg = None \<or> msg_length msg = Some (wireBytes msg))"

definition ONE_KB :: nat where
  "ONE_KB = 1024"

definition FOUR_HUNDRED_KB :: nat where
  "FOUR_HUNDRED_KB = 400 * ONE_KB"

definition FIVE_KB :: nat where
  "FIVE_KB = 5 * ONE_KB"

text \<open>The comparison \<^verbatim>\<open>x > n\<close>, false when \<^verbatim>\<open>x\<close> is \<^verbatim>\<open>undefined\<close>.\<close>

definition exceeds :: "nat option \<Rightarrow> nat \<Rightarrow> bool" where
  "exceeds x n = (case x of None \<Rightarrow> False | Some m \<Rightarrow> n < m)"

text \<open>
  The size test of both message handlers:
  \<^verbatim>\<open>msg.length > LIMIT || msg.byteLength > LIMIT\<close>.
\<close>

definition tooLarge :: "nat \<Rightarrow> frame \<Rightarrow> bool" where
  "tooLarge limit msg \<longleftrightarrow> exceeds (msg_length msg) limit \<or> exceeds (msg_byteLength msg) limit"

text \<open>
  Modelled from the spec: the modules \<^verbatim>\<open>./statusCodes\<close> and \<^verbatim>\<open>./responseBuilder\<close>
  are not among the sources. The spec's error envelope is \<^verbatim>\<open>{status, data}\<close> with the
  status taken from a fixed enumeration that the code indexes by name;
  \<^verbatim>\<open>errorResponse(status, data)\<close> builds that envelope.
\<close>

datatype statusCode =
    Success
  | BadRequest
  | Unauthorized
  | TooManyRequests
  | InternalServerError
  | OtherStatus nat

record response =
  status :: statusCode
  data :: json

definition errorResponse :: "statusCode \<Rightarrow> json \<Rightarrow> response" where
  "errorResponse s d = \<lparr>status = s, data = d\<rparr>"

text \<open>
  What \<^verbatim>\<open>ws.send\<close> is given. A template literal is kept as its fixed prefix and the
  value spliced in; a \<^verbatim>\<open>JSON.stringify\<close>-ed object is kept as its fields.
\<close>

datatype payload =
    Plain string
  | Template string json
  | ResponseMsg json response json
  | PingMsg
  | ErrorMsg statusCode json
  | ReceiveEncryptedToken
  | SuccessfullyForgotPassword response

text \<open>
  Conversion of a value to a string, as a template literal does it. For a parsed request
  the conversion throws a TypeError exactly when it meets an object with a
  \<^verbatim>\<open>toString\<close> property of its own (no parsed value is callable, and the inherited
  \<^verbatim>\<open>valueOf\<close> returns the object itself); an array converts its elements in turn,
  skipping \<^verbatim>\<open>null\<close> and \<^verbatim>\<open>undefined\<close>.
\<close>

fun toStringThrows :: "json \<Rightarrow> bool" where
  "toStringThrows (JObj kvs) = (map_of kvs ''toString'' \<noteq> None)"
| "toStringThrows (JArr vs) = list_ex toStringThrows vs"
| "toStringThrows v = False"

text \<open>
  What the JavaScript engine decides and the program does not: whether
  \<^verbatim>\<open>JSON.stringify\<close> of a message returns or throws (a RangeError when the recursion
  over a deeply nested value exhausts the stack), and whether the recursion of
  \<^verbatim>\<open>Array.prototype.join\<close> over a nested array returns.
\<close>

record runtime =
  stringifies :: "payload \<Rightarrow> bool"
  joins :: "json \<Rightarrow> bool"

text \<open>The template literal \<^verbatim>\<open>`...${v}`\<close> throws.\<close>

definition templateThrows :: "runtime \<Rightarrow> json \<Rightarrow> bool" where
  "templateThrows rt v \<longleftrightarrow>
     toStringThrows v \<or> (case v of JArr vs \<Rightarrow> \<not> joins rt v | _ \<Rightarrow> False)"

text \<open>
  The operations of the collaborators (\<^verbatim>\<open>./user\<close>, \<^verbatim>\<open>./db\<close>) that the handlers
  call, with the arguments read from the request. Arguments fixed for the life of the
  connection (user id, connection id, admin id, the validation message) are left out.
\<close>

datatype call =
    SignOut json
  | ValidateKey json
  | UpdateUser "json list"
  | DeleteUserController
  | OpenDatabase "json list"
  | DoCommand json "json list"
  | BatchTransaction "json list"
  | BundleTransactionLog "json list"
  | GetPasswordSaltsByUserId
  | GenerateForgotPasswordToken
  | ForgotPassword json

text \<open>An awaited collaborator either rejects (throws) or resolves to a response.\<close>

datatype outcome = Throws | Returns response

datatype level = Info | Warn | Error

text \<open>
  What a handler does besides updating the connection, in program order: a log line, a
  message sent on the socket, \<^verbatim>\<open>ws.terminate()\<close>, a consultation of the rate limiter
  (\<^verbatim>\<open>conn.rateLimiter.atCapacity()\<close>), a call of a collaborator. The logger
  (\<^verbatim>\<open>./logger\<close>) and \<^verbatim>\<open>ws.send\<close> belong to other modules and are taken to return.
\<close>

datatype event =
    Log level string
  | Send payload
  | Terminate
  | AtCapacity
  | Invoke call

fun sends :: "event list \<Rightarrow> payload list" where
  "sends [] = []"
| "sends (Send p # evs) = p # sends evs"
| "sends (e # evs) = sends evs"

fun invoked :: "event list \<Rightarrow> call list" where
  "invoked [] = []"
| "invoked (Invoke c # evs) = c # invoked evs"
| "invoked (e # evs) = invoked evs"

fun consultations :: "event list \<Rightarrow> nat" where
  "consultations [] = 0"
| "consultations (AtCapacity # evs) = Suc (consultations evs)"
| "consultations (e # evs) = consultations evs"

fun terminations :: "event list \<Rightarrow> nat" where
  "terminations [] = 0"
| "terminations (Terminate # evs) = Suc (terminations evs)"
| "terminations (e # evs) = terminations evs"

text \<open>
  The responses among the messages sent: the envelopes
  \<^verbatim>\<open>{requestId, response, route: action}\<close> of the main channel.
\<close>

fun responses :: "event list \<Rightarrow> (json \<times> response \<times> json) list" where
  "responses [] = []"
| "responses (Send (ResponseMsg requestId r action) # evs) = (requestId, r, action) # responses evs"
| "responses (e # evs) = responses evs"

fun errorsLogged :: "event list \<Rightarrow> string list" where
  "errorsLogged [] = []"
| "errorsLogged (Log Error s # evs) = s # errorsLogged evs"
| "errorsLogged (e # evs) = errorsLogged evs"

section \<open>Connection state\<close>

text \<open>
  The socket: its \<^verbatim>\<open>isAlive\<close> flag (set to \<^verbatim>\<open>true\<close> by both connection handlers
  before anything else, so always a boolean) and whether it is still open, that is,
  still a member of \<^verbatim>\<open>wss.clients\<close>.
\<close>

record ws =
  isAlive :: bool
  isOpen :: bool

text \<open>
  The connection object of \<^verbatim>\<open>./ws\<close> as far as server.js reads it: the flag
  \<^verbatim>\<open>keyValidated\<close> and the rate limiter, whose state type is left open.
\<close>

record 'rl conn =
  keyValidated :: bool
  rateLimiter :: 'rl

text \<open>
  Modelled from the spec: the rate limiter of \<^verbatim>\<open>./ws\<close> is not among the sources. The
  spec gives it a budget of \<open>capacity\<close> requests per window, has \<^verbatim>\<open>atCapacity()\<close>
  answer whether the budget is used up, and has every consultation consume one unit
  whatever the outcome. The refill at the end of a window needs a clock and is left out.
\<close>

record budget =
  capacity :: nat
  consumed :: nat

definition budgetAtCapacity :: "budget \<Rightarrow> bool \<times> budget" where
  "budgetAtCapacity b = (capacity b \<le> consumed b, b\<lparr>consumed := consumed b + 1\<rparr>)"

section \<open>The main channel: the message handler of the connection event\<close>

definition heartbeat :: "ws \<Rightarrow> ws" where
  "heartbeat w = w\<lparr>isAlive := True\<rparr>"

text \<open>
  Lines 114 to 118: parse, then read \<^verbatim>\<open>requestId\<close>, \<^verbatim>\<open>action\<close> and
  \<^verbatim>\<open>params\<close>. \<open>None\<close> when \<^verbatim>\<open>JSON.parse\<close> throws or the parsed value is
  \<^verbatim>\<open>null\<close>, so that the first property read throws.
\<close>

definition readRequest :: "frame \<Rightarrow> (json \<times> json \<times> json) option" where
  "readRequest msg =
     (case parsed msg of
        None \<Rightarrow> None
      | Some request \<Rightarrow>
          (case getProp request ''requestId'' of
             None \<Rightarrow> None
           | Some requestId \<Rightarrow>
               (case getProp request ''action'' of
                  None \<Rightarrow> None
                | Some action \<Rightarrow>
                    (case getProp request ''params'' of
                       None \<Rightarrow> None
                     | Some params \<Rightarrow> Some (requestId, action, params)))))"

text \<open>
  The argument list \<^verbatim>\<open>params.k1, params.k2, ...\<close> of a call: reading the first
  property throws when \<^verbatim>\<open>params\<close> is \<^verbatim>\<open>undefined\<close> or \<^verbatim>\<open>null\<close>; a call that
  reads no property of \<^verbatim>\<open>params\<close> cannot throw here.
\<close>

definition withArgs :: "json \<Rightarrow> string list \<Rightarrow> (json list \<Rightarrow> call) \<Rightarrow> call option" where
  "withArgs params ks mk = map_option mk (those (map (getProp params) ks))"

text \<open>
  What lines 137 to 227 leave behind: a response to send, an exception on its way to the
  \<^verbatim>\<open>catch\<close> block, or the early return of the \<^verbatim>\<open>default\<close> case. In the
  \<^verbatim>\<open>default\<close> case the error is logged first; the template literal of line 224 is
  evaluated next and may throw, and only then is the text sent.
\<close>

datatype dispatched = Responded response | Raised | ReturnedEarly

definition await :: "(call \<Rightarrow> outcome) \<Rightarrow> call option \<Rightarrow> dispatched \<times> event list" where
  "await ext c =
     (case c of
        None \<Rightarrow> (Raised, [])
      | Some c' \<Rightarrow>
          (case ext c' of
             Throws \<Rightarrow> (Raised, [Invoke c'])
           | Returns r \<Rightarrow> (Responded r, [Invoke c'])))"

definition dispatch ::
  "runtime \<Rightarrow> (call \<Rightarrow> outcome) \<Rightarrow> bool \<Rightarrow> json \<Rightarrow> json \<Rightarrow> dispatched \<times> event list"
where
  "dispatch rt ext validated action params =
     (if action = JStr ''SignOut'' then
        await ext (map_option SignOut (getProp params ''sessionId''))
      else if \<not> validated then
        (if action = JStr ''ValidateKey'' then
           await ext (map_option ValidateKey (getProp params ''validationMessage''))
         else (Responded (errorResponse Unauthorized (JStr ''Key not validated'')), []))
      else if action = JStr ''ValidateKey'' then
        (Responded (errorResponse BadRequest (JStr ''Already validated key'')), [])
      else if action = JStr ''UpdateUser'' then
        await ext (withArgs params
          [''username'', ''currentPasswordToken'', ''passwordToken'', ''passwordSalts'',
           ''email'', ''profile'', ''passwordBasedBackup''] UpdateUser)
      else if action = JStr ''DeleteUser'' then
        await ext (Some DeleteUserController)
      else if action = JStr ''OpenDatabase'' then
        await ext (withArgs params [''dbNameHash'', ''newDatabaseParams'', ''reopenAtSeqNo''] OpenDatabase)
      else if action = JStr ''Insert'' \<or> action = JStr ''Update'' \<or> action = JStr ''Delete'' then
        await ext (withArgs params [''dbNameHash'', ''dbId'', ''itemKey'', ''encryptedItem'']
          (DoCommand action))
      else if action = JStr ''BatchTransaction'' then
        await ext (withArgs params [''dbNameHash'', ''dbId'', ''operations''] BatchTransaction)
      else if action = JStr ''Bundle'' then
        await ext (withArgs params [''dbId'', ''seqNo'', ''bundle''] BundleTransactionLog)
      else if action = JStr ''GetPasswordSalts'' then
        await ext (Some GetPasswordSaltsByUserId)
      else if templateThrows rt action then
        (Raised, [Log Error ''Received unknown action over WebSocket''])
      else
        (ReturnedEarly,
         [Log Error ''Received unknown action over WebSocket'',
          Send (Template ''Received unkown action '' action)]))"

text \<open>
  Modelled from the spec: \<^verbatim>\<open>userController.validateKey\<close> (in \<^verbatim>\<open>./user\<close>, not among
  the sources) is handed the connection object. The spec has the connection become
  Validated on a successful \<^verbatim>\<open>ValidateKey\<close> and on nothing else, with no way back.
\<close>

definition keyValidatedAfter :: "bool \<Rightarrow> json \<Rightarrow> dispatched \<Rightarrow> bool" where
  "keyValidatedAfter validated action d \<longleftrightarrow>
     validated \<or>
     (action = JStr ''ValidateKey'' \<and>
      (case d of Responded r \<Rightarrow> status r = Success | Raised \<Rightarrow> False | ReturnedEarly \<Rightarrow> False))"

text \<open>
  Lines 230 to 251: stringify the response envelope and send it, or log in the
  \<^verbatim>\<open>catch\<close> block. The \<^verbatim>\<open>JSON.stringify\<close> of line 230 stands inside the
  \<^verbatim>\<open>try\<close>: when it throws, nothing is sent and the \<^verbatim>\<open>catch\<close> block logs.
\<close>

definition finish :: "runtime \<Rightarrow> json \<Rightarrow> json \<Rightarrow> dispatched \<Rightarrow> event list" where
  "finish rt requestId action d =
     (case d of
        Responded r \<Rightarrow>
          if stringifies rt (ResponseMsg requestId r action) then
            [Log Info ''Sent response over WebSocket'', Send (ResponseMsg requestId r action)]
          else [Log Error ''Error in Websocket handling message'']
      | Raised \<Rightarrow> [Log Error ''Error in Websocket handling message'']
      | ReturnedEarly \<Rightarrow> [])"

text \<open>
  The handler of one inbound frame of the main channel (lines 100 to 253), for a
  runtime \<open>rt\<close>, a rate limiter \<open>atCapacity\<close> and collaborators \<open>ext\<close>. The one call
  \<^verbatim>\<open>conn.rateLimiter.atCapacity()\<close> of line 131 gives both the answer (the first
  component) and the limiter's state afterwards (the second).
\<close>

definition onMessage ::
  "runtime \<Rightarrow> ('rl \<Rightarrow> bool \<times> 'rl) \<Rightarrow> (call \<Rightarrow> outcome) \<Rightarrow> frame \<Rightarrow> ws \<times> 'rl conn \<Rightarrow>
     (ws \<times> 'rl conn) \<times> event list"
where
  "onMessage rt atCapacity ext msg s =
     (let w = (fst s)\<lparr>isAlive := True\<rparr>; c = snd s in
      if tooLarge FOUR_HUNDRED_KB msg then
        ((w, c), [Log Warn ''Received large message'', Send (Plain ''Message is too large'')])
      else
        (case readRequest msg of
           None \<Rightarrow> ((w, c), [Log Error ''Error in Websocket handling message''])
         | Some (requestId, action, params) \<Rightarrow>
             if action = JStr ''Pong'' then ((heartbeat w, c), [])
             else
               (let full = fst (atCapacity (rateLimiter c));
                    c1 = c\<lparr>rateLimiter := snd (atCapacity (rateLimiter c))\<rparr>;
                    seen = [Log Info ''Received WebSocket request'', AtCapacity]
                in
                if full then
                  ((w, c1),
                   seen @ finish rt requestId action
                     (Responded (errorResponse TooManyRequests (JObj [(''retryDelay'', JNum 1000)]))))
                else
                  (let d = dispatch rt ext (keyValidated c1) action params in
                   ((w, c1\<lparr>keyValidated := keyValidatedAfter (keyValidated c1) action (fst d)\<rparr>),
                    seen @ snd d @ finish rt requestId action (fst d))))))"

section \<open>The forgot-password channel\<close>

text \<open>
  The handler of the forgot-password event (lines 259 to 296): the socket as it leaves
  the handler, whether a message handler was attached, and the events. Every object this
  channel stringifies is built from the collaborators' answers alone, never from the
  client's frame; those answers are taken to serialise.
\<close>

definition onForgotPassword :: "(call \<Rightarrow> outcome) \<Rightarrow> (ws \<times> bool) \<times> event list" where
  "onForgotPassword ext =
     (let w = \<lparr>isAlive = True, isOpen = True\<rparr>;
          opened = [Log Info ''Opened forgot-password WebSocket'', Invoke GenerateForgotPasswordToken]
      in
      case ext GenerateForgotPasswordToken of
        Throws \<Rightarrow> ((w, False), opened)
      | Returns r \<Rightarrow>
          if status r \<noteq> Success then
            ((w\<lparr>isOpen := False\<rparr>, False), opened @ [Send (ErrorMsg (status r) (data r)), Terminate])
          else ((w, True), opened @ [Send ReceiveEncryptedToken]))"

text \<open>
  Line 306, \<^verbatim>\<open>const { action, params } = request\<close>, after the parse of line 305.
\<close>

definition readForgotPassword :: "frame \<Rightarrow> (json \<times> json) option" where
  "readForgotPassword msg =
     (case parsed msg of
        None \<Rightarrow> None
      | Some request \<Rightarrow>
          (case getProp request ''action'' of
             None \<Rightarrow> None
           | Some action \<Rightarrow>
               (case getProp request ''params'' of
                  None \<Rightarrow> None
                | Some params \<Rightarrow> Some (action, params))))"

definition fpCaught :: "event list" where
  "fpCaught = [Log Error ''Error in forgot-password Websocket'']"

text \<open>The message handler of the forgot-password channel (lines 298 to 346).\<close>

definition onForgotPasswordMessage :: "(call \<Rightarrow> outcome) \<Rightarrow> frame \<Rightarrow> ws \<Rightarrow> ws \<times> event list" where
  "onForgotPasswordMessage ext msg w =
     (if tooLarge FIVE_KB msg then
        (w, [Log Warn ''Received large message over forgot-password'',
             Send (Plain ''Message is too large'')])
      else
        (case readForgotPassword msg of
           None \<Rightarrow> (w, fpCaught)
         | Some (action, params) \<Rightarrow>
             if action = JStr ''ForgotPassword'' then
               (case getProp params ''forgotPasswordToken'' of
                  None \<Rightarrow> (w, fpCaught)
                | Some token \<Rightarrow>
                    (case ext (ForgotPassword token) of
                       Throws \<Rightarrow> (w, Invoke (ForgotPassword token) # fpCaught)
                     | Returns r \<Rightarrow>
                         if status r \<noteq> Success then
                           (w\<lparr>isOpen := False\<rparr>,
                            [Invoke (ForgotPassword token),
                             Send (ErrorMsg (status r) (data r)), Terminate])
                         else
                           (w\<lparr>isOpen := False\<rparr>,
                            [Invoke (ForgotPassword token),
                             Log Info ''Forgot password finished'',
                             Send (SuccessfullyForgotPassword r), Terminate])))
             else (w, fpCaught)))"

section \<open>The heartbeat sweep\<close>

definition PING_INTERVAL_MS :: nat where
  "PING_INTERVAL_MS = 30000"

text \<open>The body of \<^verbatim>\<open>ping\<close> for one member of \<^verbatim>\<open>wss.clients\<close> (lines 351 to 356).\<close>

definition pingClient :: "ws \<Rightarrow> ws \<times> event list" where
  "pingClient w =
     (if isAlive w = False then (w\<lparr>isOpen := False\<rparr>, [Terminate])
      else (w\<lparr>isAlive := False\<rparr>, [Send PingMsg]))"

definition ping :: "ws list \<Rightarrow> (ws \<times> event list) list" where
  "ping clients = map pingClient clients"

section \<open>Timelines of one socket\<close>

text \<open>
  What happens to one socket over time: inbound frames, each handled with the
  collaborators as they answer at that moment, and runs of the heartbeat sweep. A frame
  reaches a handler only while the socket is open (and, on the forgot-password channel,
  once the message handler is attached); the sweep visits only members of
  \<^verbatim>\<open>wss.clients\<close>, that is, open sockets.
\<close>

datatype input = Inbound "call \<Rightarrow> outcome" frame | Sweep

fun mainStep ::
  "runtime \<Rightarrow> ('rl \<Rightarrow> bool \<times> 'rl) \<Rightarrow> ws \<times> 'rl conn \<Rightarrow> input \<Rightarrow> ws \<times> 'rl conn"
where
  "mainStep rt atCapacity s (Inbound ext msg) =
     (if isOpen (fst s) then fst (onMessage rt atCapacity ext msg s) else s)"
| "mainStep rt atCapacity s Sweep =
     (if isOpen (fst s) then (fst (pingClient (fst s)), snd s) else s)"

definition mainRun ::
  "runtime \<Rightarrow> ('rl \<Rightarrow> bool \<times> 'rl) \<Rightarrow> ws \<times> 'rl conn \<Rightarrow> input list \<Rightarrow> ws \<times> 'rl conn"
where
  "mainRun rt atCapacity s xs = foldl (mainStep rt atCapacity) s xs"

fun forgotPasswordStep :: "ws \<times> bool \<Rightarrow> input \<Rightarrow> ws \<times> bool" where
  "forgotPasswordStep s (Inbound ext msg) =
     (if isOpen (fst s) \<and> snd s then (fst (onForgotPasswordMessage ext msg (fst s)), snd s) else s)"
| "forgotPasswordStep s Sweep =
     (if isOpen (fst s) then (fst (pingClient (fst s)), snd s) else s)"

definition forgotPasswordRun :: "ws \<times> bool \<Rightarrow> input list \<Rightarrow> ws \<times> bool" where
  "forgotPasswordRun s xs = foldl forgotPasswordStep s xs"

fun sweeps :: "input list \<Rightarrow> nat" where
  "sweeps [] = 0"
| "sweeps (Sweep # xs) = Suc (sweeps xs)"
| "sweeps (Inbound ext msg # xs) = sweeps xs"

section \<open>Vocabulary of the claims\<close>

text \<open>
  A counted frame is one that reaches line 131: it passes the size test, parses to a
  value whose properties can be read, and its action is not \<^verbatim>\<open>Pong\<close>.
\<close>

definition counted :: "frame \<Rightarrow> bool" where
  "counted msg \<longleftrightarrow>
     \<not> tooLarge FOUR_HUNDRED_KB msg \<and>
     (case readRequest msg of
        None \<Rightarrow> False
      | Some (requestId, action, params) \<Rightarrow> action \<noteq> JStr ''Pong'')"

text \<open>The action names of the spec's list of recognized actions.\<close>

definition recognizedActions :: "string list" where
  "recognizedActions =
     [''Pong'', ''SignOut'', ''ValidateKey'', ''UpdateUser'', ''DeleteUser'', ''OpenDatabase'',
      ''Insert'', ''Update'', ''Delete'', ''BatchTransaction'', ''Bundle'', ''GetPasswordSalts'']"

definition recognized :: "json \<Rightarrow> bool" where
  "recognized action \<longleftrightarrow> (case action of JStr a \<Rightarrow> a \<in> set recognizedActions | _ \<Rightarrow> False)"

section \<open>Concrete inputs\<close>

text \<open>A text frame of \<open>n\<close> ASCII characters, one byte and one code unit each.\<close>

definition textFrame :: "nat \<Rightarrow> json \<Rightarrow> frame" where
  "textFrame n v = \<lparr>wireBytes = n, msg_length = Some n, msg_byteLength = None, parsed = Some v\<rparr>"

text \<open>A text frame of \<open>units\<close> code units that take \<open>bytes\<close> bytes on the wire.\<close>

definition wideTextFrame :: "nat \<Rightarrow> nat \<Rightarrow> json \<Rightarrow> frame" where
  "wideTextFrame units bytes v =
     \<lparr>wireBytes = bytes, msg_length = Some units, msg_byteLength = None, parsed = Some v\<rparr>"

text \<open>A binary frame of \<open>n\<close> bytes, delivered as a Buffer.\<close>

definition bufferFrame :: "nat \<Rightarrow> json \<Rightarrow> frame" where
  "bufferFrame n v = \<lparr>wireBytes = n, msg_length = Some n, msg_byteLength = Some n, parsed = Some v\<rparr>"

definition garbledFrame :: frame where
  "garbledFrame = \<lparr>wireBytes = 7, msg_length = Some 7, msg_byteLength = None, parsed = None\<rparr>"

text \<open>The depth to which arrays and objects are nested in a value.\<close>

fun nesting :: "json \<Rightarrow> nat" where
  "nesting (JArr vs) = Suc (fold max (map nesting vs) 0)"
| "nesting (JObj kvs) = Suc (fold max (map (\<lambda>kv. nesting (snd kv)) kvs) 0)"
| "nesting v = 0"

fun payloadNesting :: "payload \<Rightarrow> nat" where
  "payloadNesting (ResponseMsg requestId r action) =
     max (nesting requestId) (max (nesting (data r)) (nesting action))"
| "payloadNesting (ErrorMsg st d) = nesting d"
| "payloadNesting (SuccessfullyForgotPassword r) = nesting (data r)"
| "payloadNesting p = 0"

text \<open>A runtime whose stack carries a recursion over \<open>limit\<close> levels of nesting.\<close>

definition stackRuntime :: "nat \<Rightarrow> runtime" where
  "stackRuntime limit =
     \<lparr>stringifies = (\<lambda>p. payloadNesting p \<le> limit), joins = (\<lambda>v. nesting v \<le> limit)\<rparr>"

text \<open>\<open>nest n v\<close> is \<open>v\<close> inside \<open>n\<close> arrays: the text \<^verbatim>\<open>[[...v...]]\<close>.\<close>

primrec nest :: "nat \<Rightarrow> json \<Rightarrow> json" where
  "nest 0 v = v"
| "nest (Suc n) v = JArr [nest n v]"

definition requestWithId :: "json \<Rightarrow> string \<Rightarrow> json \<Rightarrow> json" where
  "requestWithId requestId a params =
     JObj [(''requestId'', requestId), (''action'', JStr a), (''params'', params)]"

definition requestWithAction :: "json \<Rightarrow> json" where
  "requestWithAction action = JObj [(''requestId'', JNum 1), (''action'', action)]"

definition request :: "string \<Rightarrow> json \<Rightarrow> json" where
  "request a params = JObj [(''requestId'', JNum 1), (''action'', JStr a), (''params'', params)]"

definition insertParams :: json where
  "insertParams =
     JObj [(''dbNameHash'', JStr ''h''), (''dbId'', JStr ''d''), (''itemKey'', JStr ''k''),
           (''encryptedItem'', JStr ''e'')]"



definition succeeding :: "call \<Rightarrow> outcome" where
  "succeeding c = Returns \<lparr>status = Success, data = JNull\<rparr>"

definition failing :: "call \<Rightarrow> outcome" where
  "failing c = Throws"

definition freshSocket :: ws where
  "freshSocket = \<lparr>isAlive = True, isOpen = True\<rparr>"

definition probedSocket :: ws where
  "probedSocket = \<lparr>isAlive = False, isOpen = True\<rparr>"

definition unvalidatedConn :: "nat \<Rightarrow> budget conn" where
  "unvalidatedConn n = \<lparr>keyValidated = False, rateLimiter = \<lparr>capacity = 2, consumed = n\<rparr>\<rparr>"

definition validatedConn :: "nat \<Rightarrow> budget conn" where
  "validatedConn n = \<lparr>keyValidated = True, rateLimiter = \<lparr>capacity = 2, consumed = n\<rparr>\<rparr>"

section \<open>Observations on event lists\<close>

lemma sends_append: "sends (xs @ ys) = sends xs @ sends ys"
  by (induction xs rule: sends.induct) simp_all

lemma invoked_append: "invoked (xs @ ys) = invoked xs @ invoked ys"
  by (induction xs rule: invoked.induct) simp_all

lemma consultations_append: "consultations (xs @ ys) = consultations xs + consultations ys"
  by (induction xs rule: consultations.induct) simp_all

lemma terminations_append: "terminations (xs @ ys) = terminations xs + terminations ys"
  by (induction xs rule: terminations.induct) simp_all

lemma responses_append: "responses (xs @ ys) = responses xs @ responses ys"
  by (induction xs rule: responses.induct) simp_all

lemma errorsLogged_append: "errorsLogged (xs @ ys) = errorsLogged xs @ errorsLogged ys"
  by (induction xs rule: errorsLogged.induct) simp_all

lemmas observers_append =
  sends_append invoked_append consultations_append terminations_append responses_append
  errorsLogged_append

section \<open>The paths through the main-channel handler\<close>

lemma FOUR_HUNDRED_KB_value: "FOUR_HUNDRED_KB = 409600"
  by (simp add: FOUR_HUNDRED_KB_def ONE_KB_def)

lemma FIVE_KB_value: "FIVE_KB = 5120"
  by (simp add: FIVE_KB_def ONE_KB_def)

lemma await_quiet:
  "sends (snd (await ext c)) = []"
  "consultations (snd (await ext c)) = 0"
  "terminations (snd (await ext c)) = 0"
  "errorsLogged (snd (await ext c)) = []"
  "responses (snd (await ext c)) = []"
  by (simp_all add: await_def split: option.splits outcome.splits)

lemma await_throws:
  "c' \<in> set (invoked (snd (await ext c))) \<Longrightarrow> ext c' = Throws \<Longrightarrow>
   await ext c = (Raised, [Invoke c'])"
  by (auto simp: await_def split: option.splits outcome.splits)

lemma dispatch_shape:
  "dispatch rt ext v action params \<in> range (await ext) \<union>
     {(Responded (errorResponse Unauthorized (JStr ''Key not validated'')), []),
      (Responded (errorResponse BadRequest (JStr ''Already validated key'')), []),
      (Raised, [Log Error ''Received unknown action over WebSocket'']),
      (ReturnedEarly,
       [Log Error ''Received unknown action over WebSocket'',
        Send (Template ''Received unkown action '' action)])}"
  by (simp add: dispatch_def)

lemma dispatch_quiet:
  "consultations (snd (dispatch rt ext v action params)) = 0"
  "terminations (snd (dispatch rt ext v action params)) = 0"
  "responses (snd (dispatch rt ext v action params)) = []"
  using dispatch_shape [of rt ext v action params] by (auto simp: await_quiet)

lemma dispatch_throws:
  assumes "c \<in> set (invoked (snd (dispatch rt ext v action params)))" and "ext c = Throws"
  shows "dispatch rt ext v action params = (Raised, [Invoke c])"
  using dispatch_shape [of rt ext v action params] assms by (auto simp: await_throws)


lemma onMessage_tooLarge:
  "tooLarge FOUR_HUNDRED_KB msg \<Longrightarrow>
   onMessage rt atCapacity ext msg s =
     (((fst s)\<lparr>isAlive := True\<rparr>, snd s),
      [Log Warn ''Received large message'', Send (Plain ''Message is too large'')])"
  by (simp add: onMessage_def Let_def)

lemma onMessage_Pong:
  "\<not> tooLarge FOUR_HUNDRED_KB msg \<Longrightarrow> readRequest msg = Some (requestId, JStr ''Pong'', params) \<Longrightarrow>
   onMessage rt atCapacity ext msg s = (((fst s)\<lparr>isAlive := True\<rparr>, snd s), [])"
  by (simp add: onMessage_def heartbeat_def Let_def)

lemma onMessage_full:
  "\<not> tooLarge FOUR_HUNDRED_KB msg \<Longrightarrow> readRequest msg = Some (requestId, action, params) \<Longrightarrow>
   action \<noteq> JStr ''Pong'' \<Longrightarrow> fst (atCapacity (rateLimiter (snd s))) \<Longrightarrow>
   onMessage rt atCapacity ext msg s =
     (((fst s)\<lparr>isAlive := True\<rparr>, (snd s)\<lparr>rateLimiter := snd (atCapacity (rateLimiter (snd s)))\<rparr>),
      [Log Info ''Received WebSocket request'', AtCapacity] @
      finish rt requestId action
        (Responded (errorResponse TooManyRequests (JObj [(''retryDelay'', JNum 1000)]))))"
  by (simp add: onMessage_def Let_def)

lemma onMessage_dispatched:
  "\<not> tooLarge FOUR_HUNDRED_KB msg \<Longrightarrow> readRequest msg = Some (requestId, action, params) \<Longrightarrow>
   action \<noteq> JStr ''Pong'' \<Longrightarrow> \<not> fst (atCapacity (rateLimiter (snd s))) \<Longrightarrow>
   onMessage rt atCapacity ext msg s =
     (((fst s)\<lparr>isAlive := True\<rparr>,
       (snd s)\<lparr>rateLimiter := snd (atCapacity (rateLimiter (snd s))),
               keyValidated := keyValidatedAfter (keyValidated (snd s)) action
                 (fst (dispatch rt ext (keyValidated (snd s)) action params))\<rparr>),
      [Log Info ''Received WebSocket request'', AtCapacity] @
      snd (dispatch rt ext (keyValidated (snd s)) action params) @
      finish rt requestId action (fst (dispatch rt ext (keyValidated (snd s)) action params)))"
  by (simp add: onMessage_def Let_def)

lemma finish_quiet:
  "consultations (finish rt requestId action d) = 0"
  "terminations (finish rt requestId action d) = 0"
  "invoked (finish rt requestId action d) = []"
  by (simp_all add: finish_def split: dispatched.splits)

lemma finish_Responded:
  "sends (finish rt requestId action (Responded r)) =
     (if stringifies rt (ResponseMsg requestId r action) then [ResponseMsg requestId r action] else [])"
  "errorsLogged (finish rt requestId action (Responded r)) =
     (if stringifies rt (ResponseMsg requestId r action) then []
      else [''Error in Websocket handling message''])"
  by (simp_all add: finish_def)

lemma onMessage_isOpen: "isOpen (fst (fst (onMessage rt atCapacity ext msg s))) = isOpen (fst s)"
  by (simp add: onMessage_def Let_def heartbeat_def split: option.splits prod.splits)

lemma onMessage_isAlive: "isAlive (fst (fst (onMessage rt atCapacity ext msg s)))"
  by (simp add: onMessage_def Let_def heartbeat_def split: option.splits prod.splits)

lemma onMessage_uncounted:
  "\<not> counted msg \<Longrightarrow>
   consultations (snd (onMessage rt atCapacity ext msg s)) = 0 \<and>
   invoked (snd (onMessage rt atCapacity ext msg s)) = [] \<and>
   snd (fst (onMessage rt atCapacity ext msg s)) = snd s"
  by (auto simp: counted_def onMessage_def heartbeat_def Let_def split: option.splits)

lemma onMessage_counted:
  "counted msg \<Longrightarrow>
   consultations (snd (onMessage rt atCapacity ext msg s)) = 1 \<and>
   rateLimiter (snd (fst (onMessage rt atCapacity ext msg s))) = snd (atCapacity (rateLimiter (snd s)))"
  by (auto simp: counted_def onMessage_def Let_def observers_append dispatch_quiet finish_quiet
      split: option.splits)

lemma getProp_defined: "getProp v k = Some x \<Longrightarrow> \<exists>y. getProp v k' = Some y"
  by (cases v) simp_all

lemma readRequest_action:
  assumes "parsed msg = Some req" and "getProp req ''action'' = Some a"
  shows "\<exists>requestId params. readRequest msg = Some (requestId, a, params)"
proof -
  obtain r where r: "getProp req ''requestId'' = Some r"
    using getProp_defined [OF assms(2)] by blast
  obtain p where p: "getProp req ''params'' = Some p"
    using getProp_defined [OF assms(2)] by blast
  show ?thesis
    by (simp add: readRequest_def assms r p)
qed

lemma unrecognized_distinct:
  assumes "\<not> recognized action"
  shows "action \<noteq> JStr ''Pong''" "action \<noteq> JStr ''SignOut''" "action \<noteq> JStr ''ValidateKey''"
    "action \<noteq> JStr ''UpdateUser''" "action \<noteq> JStr ''DeleteUser''" "action \<noteq> JStr ''OpenDatabase''"
    "action \<noteq> JStr ''Insert''" "action \<noteq> JStr ''Update''" "action \<noteq> JStr ''Delete''"
    "action \<noteq> JStr ''BatchTransaction''" "action \<noteq> JStr ''Bundle''"
    "action \<noteq> JStr ''GetPasswordSalts''"
  using assms by (auto simp: recognized_def recognizedActions_def)

lemma dispatch_unrecognized:
  assumes "\<not> recognized action"
  shows "dispatch rt ext True action params =
     (if templateThrows rt action
      then (Raised, [Log Error ''Received unknown action over WebSocket''])
      else (ReturnedEarly,
            [Log Error ''Received unknown action over WebSocket'',
             Send (Template ''Received unkown action '' action)]))"
  using unrecognized_distinct [OF assms] by (simp add: dispatch_def)

lemma dispatch_unvalidated:
  "action \<noteq> JStr ''SignOut'' \<Longrightarrow> action \<noteq> JStr ''ValidateKey'' \<Longrightarrow>
   dispatch rt ext False action params =
     (Responded (errorResponse Unauthorized (JStr ''Key not validated'')), [])"
  by (simp add: dispatch_def)

lemma dispatch_revalidate:
  "dispatch rt ext True (JStr ''ValidateKey'') params =
     (Responded (errorResponse BadRequest (JStr ''Already validated key'')), [])"
  by (simp add: dispatch_def)

section \<open>Sizes, nesting and conversions\<close>

lemma nesting_nest: "nesting (nest n v) = n + nesting v"
  by (induction n) simp_all

lemma isBinary_tooLarge: "isBinary msg \<Longrightarrow> limit < wireBytes msg \<Longrightarrow> tooLarge limit msg"
  by (auto simp: isBinary_def tooLarge_def exceeds_def)

lemma isText_tooLarge: "isText msg \<Longrightarrow> 3 * limit < wireBytes msg \<Longrightarrow> tooLarge limit msg"
  by (auto simp: isText_def tooLarge_def exceeds_def split: option.splits)

lemma tooLarge_wireBytes:
  "isText msg \<or> isBinary msg \<Longrightarrow> tooLarge limit msg \<Longrightarrow> limit < wireBytes msg"
  by (auto simp: isText_def isBinary_def tooLarge_def exceeds_def split: option.splits)

lemma deep_envelope_not_stringified:
  "\<not> stringifies (stackRuntime 4000) (ResponseMsg (nest 5000 JNull) r action)"
  by (simp add: stackRuntime_def nesting_nest)

lemma shallow_envelope_stringified:
  "nesting (data r) \<le> 4000 \<Longrightarrow>
   stringifies (stackRuntime 4000) (ResponseMsg (JNum n) r (JStr a))"
  by (simp add: stackRuntime_def)

lemma templateThrows_cases:
  "(case action of
      JObj kvs \<Rightarrow> templateThrows rt action = (map_of kvs ''toString'' \<noteq> None)
    | JArr vs \<Rightarrow> templateThrows rt action = (list_ex toStringThrows vs \<or> \<not> joins rt action)
    | _ \<Rightarrow> \<not> templateThrows rt action)"
  by (cases action) (simp_all add: templateThrows_def)

section \<open>Size ceiling of the main channel\<close>




section \<open>The Pong action\<close>

text \<open>
  Claim C3. For a main-channel frame whose action is \<^verbatim>\<open>Pong\<close> the liveness flag is
  true afterwards, the rate limiter is not consulted, the connection object (validation
  state and rate limiter) is unchanged whatever its validation state was, and no response
  is sent. When the frame is within the size ceiling the handler does nothing else at
  all; a frame above it is turned away by the size test before its action is read, with
  the plain diagnostic of claim C5, which is not a response.
\<close>

theorem pong_bypasses_rate_limiter:
  assumes "parsed msg = Some req" and "getProp req ''action'' = Some (JStr ''Pong'')"
  shows "isAlive (fst (fst (onMessage rt atCapacity ext msg s))) \<and>
         consultations (snd (onMessage rt atCapacity ext msg s)) = 0 \<and>
         snd (fst (onMessage rt atCapacity ext msg s)) = snd s \<and>
         responses (snd (onMessage rt atCapacity ext msg s)) = [] \<and>
         (\<not> tooLarge FOUR_HUNDRED_KB msg \<longrightarrow> snd (onMessage rt atCapacity ext msg s) = [])"
proof -
  obtain requestId params where rd: "readRequest msg = Some (requestId, JStr ''Pong'', params)"
    using readRequest_action [OF assms] by blast
  show ?thesis
  proof (cases "tooLarge FOUR_HUNDRED_KB msg")
    case True
    then show ?thesis
      by (simp add: onMessage_tooLarge)
  next
    case False
    then show ?thesis
      by (simp add: onMessage_Pong [OF False rd])
  qed
qed

theorem pong_bypasses_rate_limiter_witness:
  "parsed (textFrame 40 (request ''Pong'' JUndefined)) = Some (request ''Pong'' JUndefined) \<and>
   getProp (request ''Pong'' JUndefined) ''action'' = Some (JStr ''Pong'') \<and>
   isAlive (fst (fst (onMessage (stackRuntime 4000) budgetAtCapacity succeeding (textFrame 40 (request ''Pong'' JUndefined))
     (probedSocket, unvalidatedConn 2)))) \<and>
   consultations (snd (onMessage (stackRuntime 4000) budgetAtCapacity succeeding (textFrame 40 (request ''Pong'' JUndefined))
     (probedSocket, unvalidatedConn 2))) = 0 \<and>
   snd (fst (onMessage (stackRuntime 4000) budgetAtCapacity succeeding (textFrame 40 (request ''Pong'' JUndefined))
     (probedSocket, unvalidatedConn 2))) = unvalidatedConn 2 \<and>
   snd (onMessage (stackRuntime 4000) budgetAtCapacity succeeding (textFrame 40 (request ''Pong'' JUndefined))
     (probedSocket, unvalidatedConn 2)) = [] \<and>
   isAlive (fst (fst (onMessage (stackRuntime 4000) budgetAtCapacity succeeding
     (textFrame 500000 (request ''Pong'' JUndefined)) (probedSocket, validatedConn 2)))) \<and>
   responses (snd (onMessage (stackRuntime 4000) budgetAtCapacity succeeding
     (textFrame 500000 (request ''Pong'' JUndefined)) (probedSocket, validatedConn 2))) = [] \<and>
   sends (snd (onMessage (stackRuntime 4000) budgetAtCapacity succeeding
     (textFrame 500000 (request ''Pong'' JUndefined)) (probedSocket, validatedConn 2))) =
     [Plain ''Message is too large'']"
proof -
  have big: "sends (snd (onMessage (stackRuntime 4000) budgetAtCapacity succeeding
     (textFrame 500000 (request ''Pong'' JUndefined)) (probedSocket, validatedConn 2))) =
     [Plain ''Message is too large'']"
    by (simp add: onMessage_def Let_def textFrame_def tooLarge_def exceeds_def
        FOUR_HUNDRED_KB_value)
  show ?thesis
    using pong_bypasses_rate_limiter [where msg = "textFrame 40 (request ''Pong'' JUndefined)"
        and req = "request ''Pong'' JUndefined" and rt = "stackRuntime 4000"
        and atCapacity = budgetAtCapacity and ext = succeeding
        and s = "(probedSocket, unvalidatedConn 2)"]
      pong_bypasses_rate_limiter [where msg = "textFrame 500000 (request ''Pong'' JUndefined)"
        and req = "request ''Pong'' JUndefined" and rt = "stackRuntime 4000"
        and atCapacity = budgetAtCapacity and ext = succeeding
        and s = "(probedSocket, validatedConn 2)"]
      big
    by (simp add: textFrame_def request_def tooLarge_def exceeds_def FOUR_HUNDRED_KB_value)
qed

section \<open>Rate limiting\<close>

text \<open>
  Claim C4. (amended) A counted main-channel frame that arrives while the rate limiter is at
  capacity never reaches a collaborator and leaves the validation state as it was. When
  \<^verbatim>\<open>JSON.stringify\<close> returns for the response envelope, the frame is answered with
  exactly one message, the response
  \<^verbatim>\<open>errorResponse(statusCodes['Too Many Requests'], { retryDelay: 1000 })\<close> under the
  frame's request id and action, and no error is logged. When it throws, the
  \<^verbatim>\<open>catch\<close> block logs the error and nothing is sent.
\<close>

theorem at_capacity_rejected:
  assumes "counted msg" and "readRequest msg = Some (requestId, action, params)"
    and "fst (atCapacity (rateLimiter (snd s)))"
  shows "sends (snd (onMessage rt atCapacity ext msg s)) =
           (if stringifies rt (ResponseMsg requestId
                 (errorResponse TooManyRequests (JObj [(''retryDelay'', JNum 1000)])) action)
            then [ResponseMsg requestId
                    (errorResponse TooManyRequests (JObj [(''retryDelay'', JNum 1000)])) action]
            else []) \<and>
         errorsLogged (snd (onMessage rt atCapacity ext msg s)) =
           (if stringifies rt (ResponseMsg requestId
                 (errorResponse TooManyRequests (JObj [(''retryDelay'', JNum 1000)])) action)
            then []
            else [''Error in Websocket handling message'']) \<and>
         invoked (snd (onMessage rt atCapacity ext msg s)) = [] \<and>
         keyValidated (snd (fst (onMessage rt atCapacity ext msg s))) = keyValidated (snd s)"
proof -
  have small: "\<not> tooLarge FOUR_HUNDRED_KB msg" and np: "action \<noteq> JStr ''Pong''"
    using assms(1,2) by (simp_all add: counted_def)
  show ?thesis
    using small assms(2) np assms(3)
    by (simp add: onMessage_full observers_append finish_quiet finish_Responded)
qed

theorem at_capacity_rejected_witness:
  "counted (textFrame 80 (request ''Insert'' insertParams)) \<and>
   readRequest (textFrame 80 (request ''Insert'' insertParams)) =
     Some (JNum 1, JStr ''Insert'', insertParams) \<and>
   fst (budgetAtCapacity (rateLimiter (validatedConn 2))) \<and>
   stringifies (stackRuntime 4000) (ResponseMsg (JNum 1)
     (errorResponse TooManyRequests (JObj [(''retryDelay'', JNum 1000)])) (JStr ''Insert'')) \<and>
   sends (snd (onMessage (stackRuntime 4000) budgetAtCapacity succeeding
     (textFrame 80 (request ''Insert'' insertParams)) (freshSocket, validatedConn 2))) =
     [ResponseMsg (JNum 1) (errorResponse TooManyRequests (JObj [(''retryDelay'', JNum 1000)]))
        (JStr ''Insert'')] \<and>
   errorsLogged (snd (onMessage (stackRuntime 4000) budgetAtCapacity succeeding
     (textFrame 80 (request ''Insert'' insertParams)) (freshSocket, validatedConn 2))) = [] \<and>
   invoked (snd (onMessage (stackRuntime 4000) budgetAtCapacity succeeding
     (textFrame 80 (request ''Insert'' insertParams)) (freshSocket, validatedConn 2))) = []"
proof -
  have rd: "readRequest (textFrame 80 (request ''Insert'' insertParams)) =
      Some (JNum 1, JStr ''Insert'', insertParams)"
    by (simp add: readRequest_def textFrame_def request_def)
  have cn: "counted (textFrame 80 (request ''Insert'' insertParams))"
    by (simp add: counted_def rd) (simp add: tooLarge_def exceeds_def textFrame_def FOUR_HUNDRED_KB_value)
  have full: "fst (budgetAtCapacity (rateLimiter (snd (freshSocket, validatedConn 2))))"
    by (simp add: budgetAtCapacity_def validatedConn_def)
  have ok: "stringifies (stackRuntime 4000) (ResponseMsg (JNum 1)
     (errorResponse TooManyRequests (JObj [(''retryDelay'', JNum 1000)])) (JStr ''Insert''))"
    by (simp add: shallow_envelope_stringified errorResponse_def)
  show ?thesis
    using at_capacity_rejected [where rt = "stackRuntime 4000" and atCapacity = budgetAtCapacity
        and ext = succeeding and s = "(freshSocket, validatedConn 2)", OF cn rd full] rd cn full ok
    by simp
qed

text \<open>
  Claim C4 as stated fails for a frame of 10 KB whose request id is an array nested
  5000 deep, on a runtime whose stack gives out before that depth: the frame is counted,
  the limiter is at capacity, and no Too Many Requests response is sent.
\<close>

theorem at_capacity_response_lost:
  "counted (textFrame 10100 (requestWithId (nest 5000 JNull) ''Insert'' insertParams)) \<and>
   readRequest (textFrame 10100 (requestWithId (nest 5000 JNull) ''Insert'' insertParams)) =
     Some (nest 5000 JNull, JStr ''Insert'', insertParams) \<and>
   fst (budgetAtCapacity (rateLimiter (validatedConn 2))) \<and>
   snd (onMessage (stackRuntime 4000) budgetAtCapacity succeeding
     (textFrame 10100 (requestWithId (nest 5000 JNull) ''Insert'' insertParams))
     (freshSocket, validatedConn 2)) =
     [Log Info ''Received WebSocket request'', AtCapacity,
      Log Error ''Error in Websocket handling message'']"
proof -
  have rd: "readRequest (textFrame 10100 (requestWithId (nest 5000 JNull) ''Insert'' insertParams)) =
     Some (nest 5000 JNull, JStr ''Insert'', insertParams)"
    by (simp add: readRequest_def textFrame_def requestWithId_def)
  have small: "\<not> tooLarge FOUR_HUNDRED_KB
      (textFrame 10100 (requestWithId (nest 5000 JNull) ''Insert'' insertParams))"
    by (simp add: tooLarge_def exceeds_def textFrame_def FOUR_HUNDRED_KB_value)
  have cn: "counted (textFrame 10100 (requestWithId (nest 5000 JNull) ''Insert'' insertParams))"
    by (simp add: counted_def rd small)
  have full: "fst (budgetAtCapacity (rateLimiter (snd (freshSocket, validatedConn 2))))"
    by (simp add: budgetAtCapacity_def validatedConn_def)
  have "snd (onMessage (stackRuntime 4000) budgetAtCapacity succeeding
     (textFrame 10100 (requestWithId (nest 5000 JNull) ''Insert'' insertParams))
     (freshSocket, validatedConn 2)) =
     [Log Info ''Received WebSocket request'', AtCapacity,
      Log Error ''Error in Websocket handling message'']"
    using small rd full
    by (simp add: onMessage_full finish_def deep_envelope_not_stringified)
  then show ?thesis
    using rd cn full by simp
qed

section \<open>The validation gate\<close>

lemma unrecognized_counted:
  "\<not> tooLarge FOUR_HUNDRED_KB msg \<Longrightarrow> readRequest msg = Some (requestId, action, params) \<Longrightarrow>
   \<not> recognized action \<Longrightarrow> counted msg"
  by (simp add: counted_def unrecognized_distinct)

lemma onMessage_unvalidated_calls_nothing:
  assumes "readRequest msg = Some (requestId, action, params)"
    and "\<not> keyValidated (snd s)"
    and "action \<noteq> JStr ''ValidateKey''" and "action \<noteq> JStr ''SignOut''"
  shows "invoked (snd (onMessage rt atCapacity ext msg s)) = [] \<and>
         \<not> keyValidated (snd (fst (onMessage rt atCapacity ext msg s)))"
proof (cases "counted msg")
  case False
  then show ?thesis
    using assms(2) by (simp add: onMessage_uncounted)
next
  case True
  then have small: "\<not> tooLarge FOUR_HUNDRED_KB msg" and np: "action \<noteq> JStr ''Pong''"
    using assms(1) by (simp_all add: counted_def)
  show ?thesis
  proof (cases "fst (atCapacity (rateLimiter (snd s)))")
    case True
    then show ?thesis
      using small assms(1,2) np by (simp add: onMessage_full observers_append finish_quiet)
  next
    case False
    then show ?thesis
      using small assms np
      by (simp add: onMessage_dispatched dispatch_unvalidated finish_def keyValidatedAfter_def)
  qed
qed

text \<open>
  Claim C1. (amended) For a main-channel frame whose request can be read: on an Unvalidated
  connection an action other than \<^verbatim>\<open>ValidateKey\<close> and \<^verbatim>\<open>SignOut\<close> never reaches a
  collaborator and leaves the connection Unvalidated. When the frame is dispatched (it is
  within the size test, its action is not \<^verbatim>\<open>Pong\<close>, and the rate limiter is not at
  capacity) and \<^verbatim>\<open>JSON.stringify\<close> returns for the response envelope, it is answered
  with exactly one message: on an Unvalidated connection, for an action other than
  \<^verbatim>\<open>ValidateKey\<close> and \<^verbatim>\<open>SignOut\<close>, the Unauthorized response
  \<^verbatim>\<open>Key not validated\<close>; on a Validated connection, for \<^verbatim>\<open>ValidateKey\<close>, the Bad
  Request response \<^verbatim>\<open>Already validated key\<close>, with no collaborator called. When
  \<^verbatim>\<open>JSON.stringify\<close> throws, nothing is sent.
\<close>

theorem dispatch_gates_on_validation:
  assumes "readRequest msg = Some (requestId, action, params)"
  shows "(\<not> keyValidated (snd s) \<and> action \<noteq> JStr ''ValidateKey'' \<and> action \<noteq> JStr ''SignOut'' \<longrightarrow>
            invoked (snd (onMessage rt atCapacity ext msg s)) = [] \<and>
            \<not> keyValidated (snd (fst (onMessage rt atCapacity ext msg s)))) \<and>
         (\<not> tooLarge FOUR_HUNDRED_KB msg \<and> action \<noteq> JStr ''Pong'' \<and>
          \<not> fst (atCapacity (rateLimiter (snd s))) \<and>
          \<not> keyValidated (snd s) \<and> action \<noteq> JStr ''ValidateKey'' \<and> action \<noteq> JStr ''SignOut'' \<longrightarrow>
            sends (snd (onMessage rt atCapacity ext msg s)) =
              (if stringifies rt (ResponseMsg requestId
                    (errorResponse Unauthorized (JStr ''Key not validated'')) action)
               then [ResponseMsg requestId
                       (errorResponse Unauthorized (JStr ''Key not validated'')) action]
               else [])) \<and>
         (\<not> tooLarge FOUR_HUNDRED_KB msg \<and> \<not> fst (atCapacity (rateLimiter (snd s))) \<and>
          keyValidated (snd s) \<and> action = JStr ''ValidateKey'' \<longrightarrow>
            sends (snd (onMessage rt atCapacity ext msg s)) =
              (if stringifies rt (ResponseMsg requestId
                    (errorResponse BadRequest (JStr ''Already validated key'')) action)
               then [ResponseMsg requestId
                       (errorResponse BadRequest (JStr ''Already validated key'')) action]
               else []) \<and>
            invoked (snd (onMessage rt atCapacity ext msg s)) = [])"
proof -
  have a: "\<not> keyValidated (snd s) \<and> action \<noteq> JStr ''ValidateKey'' \<and> action \<noteq> JStr ''SignOut'' \<longrightarrow>
            invoked (snd (onMessage rt atCapacity ext msg s)) = [] \<and>
            \<not> keyValidated (snd (fst (onMessage rt atCapacity ext msg s)))"
    using onMessage_unvalidated_calls_nothing [OF assms] by blast
  have b: "\<not> tooLarge FOUR_HUNDRED_KB msg \<and> action \<noteq> JStr ''Pong'' \<and>
          \<not> fst (atCapacity (rateLimiter (snd s))) \<and>
          \<not> keyValidated (snd s) \<and> action \<noteq> JStr ''ValidateKey'' \<and> action \<noteq> JStr ''SignOut'' \<longrightarrow>
            sends (snd (onMessage rt atCapacity ext msg s)) =
              (if stringifies rt (ResponseMsg requestId
                    (errorResponse Unauthorized (JStr ''Key not validated'')) action)
               then [ResponseMsg requestId
                       (errorResponse Unauthorized (JStr ''Key not validated'')) action]
               else [])"
    using assms by (simp add: onMessage_dispatched dispatch_unvalidated finish_Responded)
  have c: "\<not> tooLarge FOUR_HUNDRED_KB msg \<and> \<not> fst (atCapacity (rateLimiter (snd s))) \<and>
          keyValidated (snd s) \<and> action = JStr ''ValidateKey'' \<longrightarrow>
            sends (snd (onMessage rt atCapacity ext msg s)) =
              (if stringifies rt (ResponseMsg requestId
                    (errorResponse BadRequest (JStr ''Already validated key'')) action)
               then [ResponseMsg requestId
                       (errorResponse BadRequest (JStr ''Already validated key'')) action]
               else []) \<and>
            invoked (snd (onMessage rt atCapacity ext msg s)) = []"
    using assms
    by (simp add: onMessage_dispatched dispatch_revalidate finish_Responded finish_quiet)
  show ?thesis
    using a b c by blast
qed

theorem dispatch_gates_on_validation_witness:
  "readRequest (textFrame 80 (request ''Insert'' insertParams)) =
     Some (JNum 1, JStr ''Insert'', insertParams) \<and>
   \<not> tooLarge FOUR_HUNDRED_KB (textFrame 80 (request ''Insert'' insertParams)) \<and>
   \<not> fst (budgetAtCapacity (rateLimiter (unvalidatedConn 0))) \<and>
   \<not> keyValidated (unvalidatedConn 0) \<and>
   sends (snd (onMessage (stackRuntime 4000) budgetAtCapacity succeeding
     (textFrame 80 (request ''Insert'' insertParams)) (freshSocket, unvalidatedConn 0))) =
     [ResponseMsg (JNum 1) (errorResponse Unauthorized (JStr ''Key not validated'')) (JStr ''Insert'')] \<and>
   invoked (snd (onMessage (stackRuntime 4000) budgetAtCapacity succeeding
     (textFrame 80 (request ''Insert'' insertParams)) (freshSocket, unvalidatedConn 0))) = [] \<and>
   readRequest (textFrame 80 (request ''ValidateKey'' JUndefined)) =
     Some (JNum 1, JStr ''ValidateKey'', JUndefined) \<and>
   \<not> tooLarge FOUR_HUNDRED_KB (textFrame 80 (request ''ValidateKey'' JUndefined)) \<and>
   \<not> fst (budgetAtCapacity (rateLimiter (validatedConn 0))) \<and>
   keyValidated (validatedConn 0) \<and>
   sends (snd (onMessage (stackRuntime 4000) budgetAtCapacity succeeding
     (textFrame 80 (request ''ValidateKey'' JUndefined)) (freshSocket, validatedConn 0))) =
     [ResponseMsg (JNum 1) (errorResponse BadRequest (JStr ''Already validated key''))
        (JStr ''ValidateKey'')]"
proof -
  have small: "\<not> tooLarge FOUR_HUNDRED_KB (textFrame 80 v)" for v
    by (simp add: tooLarge_def exceeds_def textFrame_def FOUR_HUNDRED_KB_value)
  have rd: "readRequest (textFrame 80 (request a p)) = Some (JNum 1, JStr a, p)" for a p
    by (simp add: readRequest_def textFrame_def request_def)
  have room: "\<not> fst (budgetAtCapacity (rateLimiter (unvalidatedConn 0)))"
    "\<not> fst (budgetAtCapacity (rateLimiter (validatedConn 0)))"
    by (simp_all add: budgetAtCapacity_def unvalidatedConn_def validatedConn_def)
  have u: "\<not> keyValidated (unvalidatedConn 0)" and v: "keyValidated (validatedConn 0)"
    by (simp_all add: unvalidatedConn_def validatedConn_def)
  have ok: "stringifies (stackRuntime 4000) (ResponseMsg (JNum 1) (errorResponse st (JStr t)) (JStr a))"
    for st t a
    by (simp add: shallow_envelope_stringified errorResponse_def)
  show ?thesis
    using small rd room u v ok
      dispatch_gates_on_validation [where rt = "stackRuntime 4000" and atCapacity = budgetAtCapacity
        and ext = succeeding and s = "(freshSocket, unvalidatedConn 0)", OF rd,
        of "''Insert''" insertParams]
      dispatch_gates_on_validation [where rt = "stackRuntime 4000" and atCapacity = budgetAtCapacity
        and ext = succeeding and s = "(freshSocket, validatedConn 0)", OF rd,
        of "''ValidateKey''" JUndefined]
    by simp
qed

text \<open>
  Claim C1 as stated, for every inbound message, fails: with the rate limiter at
  capacity an \<^verbatim>\<open>Insert\<close> on an Unvalidated connection and a \<^verbatim>\<open>ValidateKey\<close> on a
  Validated one are both answered with Too Many Requests; a \<^verbatim>\<open>Pong\<close> on an
  Unvalidated connection is not answered at all; and a dispatched \<^verbatim>\<open>Insert\<close> on an
  Unvalidated connection whose request id is nested too deep for the stack is logged in
  the \<^verbatim>\<open>catch\<close> block and not answered.
\<close>

theorem unauthorized_only_when_dispatched:
  "\<not> keyValidated (unvalidatedConn 2) \<and>
   readRequest (textFrame 80 (request ''Insert'' insertParams)) =
     Some (JNum 1, JStr ''Insert'', insertParams) \<and>
   sends (snd (onMessage (stackRuntime 4000) budgetAtCapacity succeeding
     (textFrame 80 (request ''Insert'' insertParams)) (freshSocket, unvalidatedConn 2))) =
     [ResponseMsg (JNum 1) (errorResponse TooManyRequests (JObj [(''retryDelay'', JNum 1000)]))
        (JStr ''Insert'')] \<and>
   sends (snd (onMessage (stackRuntime 4000) budgetAtCapacity succeeding
     (textFrame 80 (request ''Insert'' insertParams)) (freshSocket, unvalidatedConn 2))) \<noteq>
     [ResponseMsg (JNum 1) (errorResponse Unauthorized (JStr ''Key not validated'')) (JStr ''Insert'')] \<and>
   keyValidated (validatedConn 2) \<and>
   sends (snd (onMessage (stackRuntime 4000) budgetAtCapacity succeeding
     (textFrame 80 (request ''ValidateKey'' JUndefined)) (freshSocket, validatedConn 2))) =
     [ResponseMsg (JNum 1) (errorResponse TooManyRequests (JObj [(''retryDelay'', JNum 1000)]))
        (JStr ''ValidateKey'')] \<and>
   readRequest (textFrame 40 (request ''Pong'' JUndefined)) = Some (JNum 1, JStr ''Pong'', JUndefined) \<and>
   sends (snd (onMessage (stackRuntime 4000) budgetAtCapacity succeeding
     (textFrame 40 (request ''Pong'' JUndefined)) (freshSocket, unvalidatedConn 0))) = [] \<and>
   \<not> fst (budgetAtCapacity (rateLimiter (unvalidatedConn 0))) \<and>
   readRequest (textFrame 10100 (requestWithId (nest 5000 JNull) ''Insert'' insertParams)) =
     Some (nest 5000 JNull, JStr ''Insert'', insertParams) \<and>
   snd (onMessage (stackRuntime 4000) budgetAtCapacity succeeding
     (textFrame 10100 (requestWithId (nest 5000 JNull) ''Insert'' insertParams))
     (freshSocket, unvalidatedConn 0)) =
     [Log Info ''Received WebSocket request'', AtCapacity,
      Log Error ''Error in Websocket handling message'']"
proof -
  have shallow: "\<not> keyValidated (unvalidatedConn 2) \<and>
   readRequest (textFrame 80 (request ''Insert'' insertParams)) =
     Some (JNum 1, JStr ''Insert'', insertParams) \<and>
   sends (snd (onMessage (stackRuntime 4000) budgetAtCapacity succeeding
     (textFrame 80 (request ''Insert'' insertParams)) (freshSocket, unvalidatedConn 2))) =
     [ResponseMsg (JNum 1) (errorResponse TooManyRequests (JObj [(''retryDelay'', JNum 1000)]))
        (JStr ''Insert'')] \<and>
   sends (snd (onMessage (stackRuntime 4000) budgetAtCapacity succeeding
     (textFrame 80 (request ''Insert'' insertParams)) (freshSocket, unvalidatedConn 2))) \<noteq>
     [ResponseMsg (JNum 1) (errorResponse Unauthorized (JStr ''Key not validated'')) (JStr ''Insert'')] \<and>
   keyValidated (validatedConn 2) \<and>
   sends (snd (onMessage (stackRuntime 4000) budgetAtCapacity succeeding
     (textFrame 80 (request ''ValidateKey'' JUndefined)) (freshSocket, validatedConn 2))) =
     [ResponseMsg (JNum 1) (errorResponse TooManyRequests (JObj [(''retryDelay'', JNum 1000)]))
        (JStr ''ValidateKey'')] \<and>
   readRequest (textFrame 40 (request ''Pong'' JUndefined)) = Some (JNum 1, JStr ''Pong'', JUndefined) \<and>
   sends (snd (onMessage (stackRuntime 4000) budgetAtCapacity succeeding
     (textFrame 40 (request ''Pong'' JUndefined)) (freshSocket, unvalidatedConn 0))) = [] \<and>
   \<not> fst (budgetAtCapacity (rateLimiter (unvalidatedConn 0)))"
    by (simp add: onMessage_def Let_def readRequest_def textFrame_def request_def tooLarge_def
        exceeds_def FOUR_HUNDRED_KB_value budgetAtCapacity_def unvalidatedConn_def validatedConn_def
        finish_def heartbeat_def errorResponse_def stackRuntime_def)
  have rd: "readRequest (textFrame 10100 (requestWithId (nest 5000 JNull) ''Insert'' insertParams)) =
     Some (nest 5000 JNull, JStr ''Insert'', insertParams)"
    by (simp add: readRequest_def textFrame_def requestWithId_def)
  have small: "\<not> tooLarge FOUR_HUNDRED_KB
      (textFrame 10100 (requestWithId (nest 5000 JNull) ''Insert'' insertParams))"
    by (simp add: tooLarge_def exceeds_def textFrame_def FOUR_HUNDRED_KB_value)
  have room: "\<not> fst (budgetAtCapacity (rateLimiter (snd (freshSocket, unvalidatedConn 0))))"
    by (simp add: budgetAtCapacity_def unvalidatedConn_def)
  have deep: "snd (onMessage (stackRuntime 4000) budgetAtCapacity succeeding
     (textFrame 10100 (requestWithId (nest 5000 JNull) ''Insert'' insertParams))
     (freshSocket, unvalidatedConn 0)) =
     [Log Info ''Received WebSocket request'', AtCapacity,
      Log Error ''Error in Websocket handling message'']"
    using small rd room
    by (simp add: onMessage_dispatched dispatch_unvalidated finish_def
        deep_envelope_not_stringified unvalidatedConn_def)
  show ?thesis
    using shallow rd deep by (simp add: errorResponse_def)
qed

section \<open>What the rate limiter counts\<close>

text \<open>
  Claim C2. (amended) A counted main-channel frame (within the size ceiling, readable, not
  \<^verbatim>\<open>Pong\<close>) consults the rate limiter exactly once, whatever the limiter, the
  collaborators and the validation state, and so consumes one unit of the budget; a frame
  with an unknown action is counted. A frame that is not counted leaves the limiter
  untouched, and a frame that \<^verbatim>\<open>JSON.parse\<close> rejects is not counted: the parse at line
  114 throws before line 131 is reached.
\<close>

theorem counted_frame_consumes_one_unit:
  "(counted msg \<longrightarrow>
      consultations (snd (onMessage rt atCapacity ext msg s)) = 1 \<and>
      rateLimiter (snd (fst (onMessage rt atCapacity ext msg s))) = snd (atCapacity (rateLimiter (snd s))) \<and>
      consumed (rateLimiter (snd (fst (onMessage rt budgetAtCapacity ext msg b)))) =
        consumed (rateLimiter (snd b)) + 1) \<and>
   (\<not> counted msg \<longrightarrow>
      consultations (snd (onMessage rt atCapacity ext msg s)) = 0 \<and>
      rateLimiter (snd (fst (onMessage rt atCapacity ext msg s))) = rateLimiter (snd s)) \<and>
   (\<not> tooLarge FOUR_HUNDRED_KB msg \<and> readRequest msg = Some (requestId, action, params) \<and>
    \<not> recognized action \<longrightarrow> counted msg) \<and>
   (parsed msg = None \<longrightarrow> \<not> counted msg)"
proof -
  have "parsed msg = None \<Longrightarrow> \<not> counted msg"
    by (simp add: counted_def readRequest_def)
  then show ?thesis
    using onMessage_counted [where msg = msg and rt = rt and atCapacity = atCapacity and ext = ext and s = s]
      onMessage_counted [where msg = msg and rt = rt and atCapacity = budgetAtCapacity and ext = ext and s = b]
      onMessage_uncounted [where msg = msg and rt = rt and atCapacity = atCapacity and ext = ext and s = s]
      unrecognized_counted [of msg requestId action params]
    by (auto simp: budgetAtCapacity_def)
qed

theorem counted_frame_consumes_one_unit_witness:
  "counted (textFrame 80 (request ''Frobnicate'' JUndefined)) \<and>
   \<not> recognized (JStr ''Frobnicate'') \<and>
   consultations (snd (onMessage (stackRuntime 4000) budgetAtCapacity failing
     (textFrame 80 (request ''Frobnicate'' JUndefined)) (freshSocket, validatedConn 0))) = 1 \<and>
   consumed (rateLimiter (snd (fst (onMessage (stackRuntime 4000) budgetAtCapacity failing
     (textFrame 80 (request ''Frobnicate'' JUndefined)) (freshSocket, validatedConn 0))))) = 1 \<and>
   parsed garbledFrame = None \<and> \<not> counted garbledFrame \<and>
   consultations (snd (onMessage (stackRuntime 4000) budgetAtCapacity failing garbledFrame (freshSocket, validatedConn 0))) = 0 \<and>
   rateLimiter (snd (fst (onMessage (stackRuntime 4000) budgetAtCapacity failing garbledFrame (freshSocket, validatedConn 0)))) =
     rateLimiter (validatedConn 0)"
proof -
  have small: "\<not> tooLarge FOUR_HUNDRED_KB (textFrame 80 v)" for v
    by (simp add: tooLarge_def exceeds_def textFrame_def FOUR_HUNDRED_KB_value)
  have rd: "readRequest (textFrame 80 (request a p)) = Some (JNum 1, JStr a, p)" for a p
    by (simp add: readRequest_def textFrame_def request_def)
  have unk: "\<not> recognized (JStr ''Frobnicate'')"
    by (simp add: recognized_def recognizedActions_def)
  have g: "parsed garbledFrame = None"
    by (simp add: garbledFrame_def)
  show ?thesis
    using counted_frame_consumes_one_unit
        [where msg = "textFrame 80 (request ''Frobnicate'' JUndefined)"
          and rt = "stackRuntime 4000" and atCapacity = budgetAtCapacity and ext = failing
          and s = "(freshSocket, validatedConn 0)" and b = "(freshSocket, validatedConn 0)"
          and requestId = "JNum 1" and action = "JStr ''Frobnicate''" and params = JUndefined]
      counted_frame_consumes_one_unit
        [where msg = garbledFrame
          and rt = "stackRuntime 4000" and atCapacity = budgetAtCapacity and ext = failing
          and s = "(freshSocket, validatedConn 0)" and b = "(freshSocket, validatedConn 0)"
          and requestId = JNull and action = JNull and params = JNull]
      small rd unk g
    by (auto simp: validatedConn_def)
qed

text \<open>
  Claim C2 as stated fails for the malformed frame: it is logged in the
  \<^verbatim>\<open>catch\<close> block and the budget is where it was.
\<close>

theorem garbled_frame_consumes_nothing:
  "parsed garbledFrame = None \<and>
   \<not> tooLarge FOUR_HUNDRED_KB garbledFrame \<and>
   consumed (rateLimiter (validatedConn 0)) = 0 \<and>
   snd (onMessage (stackRuntime 4000) budgetAtCapacity succeeding garbledFrame (freshSocket, validatedConn 0)) =
     [Log Error ''Error in Websocket handling message''] \<and>
   consumed (rateLimiter (snd (fst (onMessage (stackRuntime 4000) budgetAtCapacity succeeding garbledFrame
     (freshSocket, validatedConn 0))))) = 0"
  by (simp add: onMessage_def Let_def readRequest_def garbledFrame_def tooLarge_def exceeds_def
      FOUR_HUNDRED_KB_value validatedConn_def)

section \<open>Unknown actions and failing collaborators\<close>

text \<open>
  Claim C9. (amended) A main-channel frame dispatched on a Validated connection (within the
  size test, readable, rate limiter not at capacity) whose action is none of the
  recognized names logs the error \<^verbatim>\<open>Received unknown action over WebSocket\<close>, calls no
  collaborator and leaves the socket open. When the action converts to a string, the
  handler then sends exactly one message, the plain text \<^verbatim>\<open>Received unkown action\<close>
  followed by the action, and logs nothing more. When the conversion throws, the
  \<^verbatim>\<open>catch\<close> block logs a second error and nothing is sent. The conversion throws for
  an object exactly when it has a \<^verbatim>\<open>toString\<close> property of its own, for an array
  exactly when an element's conversion throws or the runtime's stack gives out, and for
  no other action.
\<close>

theorem unknown_action_diagnosed:
  assumes "\<not> tooLarge FOUR_HUNDRED_KB msg"
    and "readRequest msg = Some (requestId, action, params)"
    and "\<not> fst (atCapacity (rateLimiter (snd s)))"
    and "keyValidated (snd s)"
    and "\<not> recognized action"
  shows "errorsLogged (snd (onMessage rt atCapacity ext msg s)) =
           (if templateThrows rt action
            then [''Received unknown action over WebSocket'', ''Error in Websocket handling message'']
            else [''Received unknown action over WebSocket'']) \<and>
         sends (snd (onMessage rt atCapacity ext msg s)) =
           (if templateThrows rt action then [] else [Template ''Received unkown action '' action]) \<and>
         invoked (snd (onMessage rt atCapacity ext msg s)) = [] \<and>
         terminations (snd (onMessage rt atCapacity ext msg s)) = 0 \<and>
         isOpen (fst (fst (onMessage rt atCapacity ext msg s))) = isOpen (fst s) \<and>
         (case action of
            JObj kvs \<Rightarrow> templateThrows rt action = (map_of kvs ''toString'' \<noteq> None)
          | JArr vs \<Rightarrow> templateThrows rt action = (list_ex toStringThrows vs \<or> \<not> joins rt action)
          | _ \<Rightarrow> \<not> templateThrows rt action)"
  using assms unrecognized_distinct(1) [OF assms(5)] templateThrows_cases [where action = action and rt = rt]
  by (simp add: onMessage_dispatched dispatch_unrecognized finish_def onMessage_isOpen)

theorem unknown_action_diagnosed_witness:
  "\<not> tooLarge FOUR_HUNDRED_KB (textFrame 80 (request ''Frobnicate'' JUndefined)) \<and>
   readRequest (textFrame 80 (request ''Frobnicate'' JUndefined)) =
     Some (JNum 1, JStr ''Frobnicate'', JUndefined) \<and>
   \<not> fst (budgetAtCapacity (rateLimiter (validatedConn 0))) \<and>
   keyValidated (validatedConn 0) \<and>
   \<not> recognized (JStr ''Frobnicate'') \<and>
   \<not> templateThrows (stackRuntime 4000) (JStr ''Frobnicate'') \<and>
   errorsLogged (snd (onMessage (stackRuntime 4000) budgetAtCapacity succeeding
     (textFrame 80 (request ''Frobnicate'' JUndefined)) (freshSocket, validatedConn 0))) =
     [''Received unknown action over WebSocket''] \<and>
   sends (snd (onMessage (stackRuntime 4000) budgetAtCapacity succeeding
     (textFrame 80 (request ''Frobnicate'' JUndefined)) (freshSocket, validatedConn 0))) =
     [Template ''Received unkown action '' (JStr ''Frobnicate'')] \<and>
   isOpen (fst (fst (onMessage (stackRuntime 4000) budgetAtCapacity succeeding
     (textFrame 80 (request ''Frobnicate'' JUndefined)) (freshSocket, validatedConn 0))))"
proof -
  have small: "\<not> tooLarge FOUR_HUNDRED_KB (textFrame 80 (request ''Frobnicate'' JUndefined))"
    by (simp add: tooLarge_def exceeds_def textFrame_def FOUR_HUNDRED_KB_value)
  have rd: "readRequest (textFrame 80 (request ''Frobnicate'' JUndefined)) =
      Some (JNum 1, JStr ''Frobnicate'', JUndefined)"
    by (simp add: readRequest_def textFrame_def request_def)
  have room: "\<not> fst (budgetAtCapacity (rateLimiter (snd (freshSocket, validatedConn 0))))"
    by (simp add: budgetAtCapacity_def validatedConn_def)
  have v: "keyValidated (snd (freshSocket, validatedConn 0))"
    by (simp add: validatedConn_def)
  have unk: "\<not> recognized (JStr ''Frobnicate'')"
    by (simp add: recognized_def recognizedActions_def)
  have conv: "\<not> templateThrows (stackRuntime 4000) (JStr ''Frobnicate'')"
    by (simp add: templateThrows_def)
  show ?thesis
    using small rd room v unk conv
      unknown_action_diagnosed [where rt = "stackRuntime 4000" and atCapacity = budgetAtCapacity
        and ext = succeeding and s = "(freshSocket, validatedConn 0)", OF small rd room v unk]
    by (simp add: freshSocket_def)
qed

text \<open>
  Claim C9 as stated fails for the action \<^verbatim>\<open>{"toString": null}\<close>: it is not a
  recognized action, the template literal of line 224 throws a TypeError, and the frame
  gets two error logs and no diagnostic.
\<close>

theorem unconvertible_action_not_diagnosed:
  "\<not> tooLarge FOUR_HUNDRED_KB (textFrame 50 (requestWithAction (JObj [(''toString'', JNull)]))) \<and>
   readRequest (textFrame 50 (requestWithAction (JObj [(''toString'', JNull)]))) =
     Some (JNum 1, JObj [(''toString'', JNull)], JUndefined) \<and>
   \<not> fst (budgetAtCapacity (rateLimiter (validatedConn 0))) \<and>
   keyValidated (validatedConn 0) \<and>
   \<not> recognized (JObj [(''toString'', JNull)]) \<and>
   snd (onMessage (stackRuntime 4000) budgetAtCapacity succeeding
     (textFrame 50 (requestWithAction (JObj [(''toString'', JNull)])))
     (freshSocket, validatedConn 0)) =
     [Log Info ''Received WebSocket request'', AtCapacity,
      Log Error ''Received unknown action over WebSocket'',
      Log Error ''Error in Websocket handling message'']"
  by (simp add: onMessage_def Let_def readRequest_def textFrame_def requestWithAction_def
      tooLarge_def exceeds_def FOUR_HUNDRED_KB_value budgetAtCapacity_def validatedConn_def
      finish_def dispatch_def templateThrows_def recognized_def)

text \<open>
  Claim C7. When the collaborator called for a main-channel frame throws, the handler logs
  the error \<^verbatim>\<open>Error in Websocket handling message\<close> in its \<^verbatim>\<open>catch\<close> block, sends
  nothing, does not terminate the socket, and leaves the validation state as it was.
\<close>

theorem handler_error_is_swallowed:
  assumes "c \<in> set (invoked (snd (onMessage rt atCapacity ext msg s)))" and "ext c = Throws"
  shows "errorsLogged (snd (onMessage rt atCapacity ext msg s)) =
           [''Error in Websocket handling message''] \<and>
         sends (snd (onMessage rt atCapacity ext msg s)) = [] \<and>
         terminations (snd (onMessage rt atCapacity ext msg s)) = 0 \<and>
         isOpen (fst (fst (onMessage rt atCapacity ext msg s))) = isOpen (fst s) \<and>
         keyValidated (snd (fst (onMessage rt atCapacity ext msg s))) = keyValidated (snd s)"
proof -
  have cn: "counted msg"
  proof (rule ccontr)
    assume "\<not> counted msg"
    then have "invoked (snd (onMessage rt atCapacity ext msg s)) = []"
      by (simp add: onMessage_uncounted)
    with assms(1) show False by simp
  qed
  then obtain requestId action params where rd: "readRequest msg = Some (requestId, action, params)"
    and small: "\<not> tooLarge FOUR_HUNDRED_KB msg" and np: "action \<noteq> JStr ''Pong''"
    by (auto simp: counted_def split: option.splits)
  have room: "\<not> fst (atCapacity (rateLimiter (snd s)))"
    using assms(1) small rd np by (auto simp: onMessage_full observers_append finish_quiet)
  note shape = onMessage_dispatched [where rt = rt and atCapacity = atCapacity and s = s
      and ext = ext, OF small rd np room]
  have "c \<in> set (invoked (snd (dispatch rt ext (keyValidated (snd s)) action params)))"
    using assms(1) by (simp add: shape observers_append finish_quiet)
  then have d: "dispatch rt ext (keyValidated (snd s)) action params = (Raised, [Invoke c])"
    using assms(2) by (rule dispatch_throws)
  show ?thesis
    by (simp add: shape d finish_def keyValidatedAfter_def)
qed

theorem handler_error_is_swallowed_witness:
  "DoCommand (JStr ''Insert'') [JStr ''h'', JStr ''d'', JStr ''k'', JStr ''e''] \<in>
     set (invoked (snd (onMessage (stackRuntime 4000) budgetAtCapacity failing
       (textFrame 80 (request ''Insert'' insertParams)) (freshSocket, validatedConn 0)))) \<and>
   failing (DoCommand (JStr ''Insert'') [JStr ''h'', JStr ''d'', JStr ''k'', JStr ''e'']) = Throws \<and>
   errorsLogged (snd (onMessage (stackRuntime 4000) budgetAtCapacity failing
     (textFrame 80 (request ''Insert'' insertParams)) (freshSocket, validatedConn 0))) =
     [''Error in Websocket handling message''] \<and>
   sends (snd (onMessage (stackRuntime 4000) budgetAtCapacity failing
     (textFrame 80 (request ''Insert'' insertParams)) (freshSocket, validatedConn 0))) = [] \<and>
   terminations (snd (onMessage (stackRuntime 4000) budgetAtCapacity failing
     (textFrame 80 (request ''Insert'' insertParams)) (freshSocket, validatedConn 0))) = 0 \<and>
   isOpen (fst (fst (onMessage (stackRuntime 4000) budgetAtCapacity failing
     (textFrame 80 (request ''Insert'' insertParams)) (freshSocket, validatedConn 0))))"
proof -
  have inv: "DoCommand (JStr ''Insert'') [JStr ''h'', JStr ''d'', JStr ''k'', JStr ''e''] \<in>
     set (invoked (snd (onMessage (stackRuntime 4000) budgetAtCapacity failing
       (textFrame 80 (request ''Insert'' insertParams)) (freshSocket, validatedConn 0))))"
    by (simp add: onMessage_def Let_def readRequest_def textFrame_def request_def tooLarge_def
        exceeds_def FOUR_HUNDRED_KB_value budgetAtCapacity_def validatedConn_def finish_def
        dispatch_def await_def withArgs_def insertParams_def failing_def)
  have thr: "failing (DoCommand (JStr ''Insert'') [JStr ''h'', JStr ''d'', JStr ''k'', JStr ''e'']) = Throws"
    by (simp add: failing_def)
  show ?thesis
    using handler_error_is_swallowed [OF inv thr] inv thr by (simp add: freshSocket_def)
qed

section \<open>Protocol violations on the forgot-password channel\<close>

lemma onForgotPasswordMessage_isAlive:
  "isAlive (fst (onForgotPasswordMessage ext msg w)) = isAlive w"
  by (simp add: onForgotPasswordMessage_def split: option.splits outcome.splits prod.splits)

lemma readForgotPassword_unparsed: "parsed msg = None \<Longrightarrow> readForgotPassword msg = None"
  by (simp add: readForgotPassword_def)

text \<open>
  Claim C6. (amended) On the forgot-password channel a protocol violation (a frame the size
  test rejects, a frame that does not parse, or an action other than
  \<^verbatim>\<open>ForgotPassword\<close>) does not terminate the socket: the socket is left as it was and no
  collaborator is called. The frame the size test rejects is logged as a warning and
  answered with the plain text \<^verbatim>\<open>Message is too large\<close>; the other two are logged as an
  error in the \<^verbatim>\<open>catch\<close> block and not answered. The size test reads the
  \<^verbatim>\<open>length\<close> and \<^verbatim>\<open>byteLength\<close> properties against 5 * 1024: it rejects every
  binary frame larger than 5 KB and every text frame larger than 15 KB, and no frame of
  5 KB or less, a text frame being measured in UTF-16 code units.
\<close>

theorem forgot_password_violation_keeps_socket:
  "(tooLarge FIVE_KB msg \<longleftrightarrow>
      exceeds (msg_length msg) (5 * 1024) \<or> exceeds (msg_byteLength msg) (5 * 1024)) \<and>
   (tooLarge FIVE_KB msg \<or> parsed msg = None \<or>
    (\<exists>action params. readForgotPassword msg = Some (action, params) \<and>
       action \<noteq> JStr ''ForgotPassword'') \<longrightarrow>
      fst (onForgotPasswordMessage ext msg w) = w \<and>
      terminations (snd (onForgotPasswordMessage ext msg w)) = 0 \<and>
      invoked (snd (onForgotPasswordMessage ext msg w)) = [] \<and>
      snd (onForgotPasswordMessage ext msg w) =
        (if tooLarge FIVE_KB msg
         then [Log Warn ''Received large message over forgot-password'',
               Send (Plain ''Message is too large'')]
         else [Log Error ''Error in forgot-password Websocket''])) \<and>
   (isBinary msg \<and> 5 * 1024 < wireBytes msg \<longrightarrow> tooLarge FIVE_KB msg) \<and>
   (isText msg \<and> 3 * (5 * 1024) < wireBytes msg \<longrightarrow> tooLarge FIVE_KB msg) \<and>
   ((isText msg \<or> isBinary msg) \<and> tooLarge FIVE_KB msg \<longrightarrow> 5 * 1024 < wireBytes msg)"
proof -
  have a: "tooLarge FIVE_KB msg \<longleftrightarrow>
      exceeds (msg_length msg) (5 * 1024) \<or> exceeds (msg_byteLength msg) (5 * 1024)"
    by (simp add: tooLarge_def FIVE_KB_value)
  have b: "tooLarge FIVE_KB msg \<or> parsed msg = None \<or>
    (\<exists>action params. readForgotPassword msg = Some (action, params) \<and>
       action \<noteq> JStr ''ForgotPassword'') \<longrightarrow>
      fst (onForgotPasswordMessage ext msg w) = w \<and>
      terminations (snd (onForgotPasswordMessage ext msg w)) = 0 \<and>
      invoked (snd (onForgotPasswordMessage ext msg w)) = [] \<and>
      snd (onForgotPasswordMessage ext msg w) =
        (if tooLarge FIVE_KB msg
         then [Log Warn ''Received large message over forgot-password'',
               Send (Plain ''Message is too large'')]
         else [Log Error ''Error in forgot-password Websocket''])"
    by (auto simp: onForgotPasswordMessage_def fpCaught_def readForgotPassword_unparsed)
  have c: "isBinary msg \<and> 5 * 1024 < wireBytes msg \<longrightarrow> tooLarge FIVE_KB msg"
    by (simp add: isBinary_tooLarge FIVE_KB_value)
  have d: "isText msg \<and> 3 * (5 * 1024) < wireBytes msg \<longrightarrow> tooLarge FIVE_KB msg"
    by (simp add: isText_tooLarge FIVE_KB_value)
  have e: "(isText msg \<or> isBinary msg) \<and> tooLarge FIVE_KB msg \<longrightarrow> 5 * 1024 < wireBytes msg"
    using tooLarge_wireBytes [of msg FIVE_KB] by (simp add: FIVE_KB_value)
  show ?thesis
    using a b c d e by blast
qed

theorem forgot_password_violation_keeps_socket_witness:
  "isBinary (bufferFrame 6000 (request ''ForgotPassword'' JUndefined)) \<and>
   5 * 1024 < wireBytes (bufferFrame 6000 (request ''ForgotPassword'' JUndefined)) \<and>
   tooLarge FIVE_KB (bufferFrame 6000 (request ''ForgotPassword'' JUndefined)) \<and>
   onForgotPasswordMessage succeeding (bufferFrame 6000 (request ''ForgotPassword'' JUndefined)) freshSocket =
     (freshSocket,
      [Log Warn ''Received large message over forgot-password'', Send (Plain ''Message is too large'')]) \<and>
   \<not> tooLarge FIVE_KB garbledFrame \<and> parsed garbledFrame = None \<and>
   onForgotPasswordMessage succeeding garbledFrame freshSocket =
     (freshSocket, [Log Error ''Error in forgot-password Websocket'']) \<and>
   \<not> tooLarge FIVE_KB (textFrame 40 (request ''Pong'' JUndefined)) \<and>
   readForgotPassword (textFrame 40 (request ''Pong'' JUndefined)) = Some (JStr ''Pong'', JUndefined) \<and>
   onForgotPasswordMessage succeeding (textFrame 40 (request ''Pong'' JUndefined)) freshSocket =
     (freshSocket, [Log Error ''Error in forgot-password Websocket'']) \<and>
   isText (wideTextFrame 5200 15600 (request ''ForgotPassword'' JUndefined)) \<and>
   3 * (5 * 1024) < wireBytes (wideTextFrame 5200 15600 (request ''ForgotPassword'' JUndefined)) \<and>
   tooLarge FIVE_KB (wideTextFrame 5200 15600 (request ''ForgotPassword'' JUndefined))"
proof -
  have bin: "isBinary (bufferFrame 6000 v)" "5 * 1024 < wireBytes (bufferFrame 6000 v)" for v
    by (simp_all add: isBinary_def bufferFrame_def)
  have wide: "isText (wideTextFrame 5200 15600 v)"
    "3 * (5 * 1024) < wireBytes (wideTextFrame 5200 15600 v)" for v
    by (simp_all add: isText_def wideTextFrame_def)
  have g: "\<not> tooLarge FIVE_KB garbledFrame" "parsed garbledFrame = None"
    by (simp_all add: tooLarge_def exceeds_def garbledFrame_def FIVE_KB_value)
  have small: "\<not> tooLarge FIVE_KB (textFrame 40 (request ''Pong'' JUndefined))"
    by (simp add: tooLarge_def exceeds_def textFrame_def FIVE_KB_value)
  have other: "readForgotPassword (textFrame 40 (request ''Pong'' JUndefined)) =
      Some (JStr ''Pong'', JUndefined)"
    by (simp add: readForgotPassword_def textFrame_def request_def)
  note buf = forgot_password_violation_keeps_socket
      [of "bufferFrame 6000 (request ''ForgotPassword'' JUndefined)" succeeding freshSocket]
  note gar = forgot_password_violation_keeps_socket [of garbledFrame succeeding freshSocket]
  note oth = forgot_password_violation_keeps_socket
      [of "textFrame 40 (request ''Pong'' JUndefined)" succeeding freshSocket]
  note wid = forgot_password_violation_keeps_socket
      [of "wideTextFrame 5200 15600 (request ''ForgotPassword'' JUndefined)" succeeding freshSocket]
  have big: "tooLarge FIVE_KB (bufferFrame 6000 (request ''ForgotPassword'' JUndefined))"
    using bin buf [THEN conjunct2, THEN conjunct2, THEN conjunct1] by simp
  have r1: "onForgotPasswordMessage succeeding
      (bufferFrame 6000 (request ''ForgotPassword'' JUndefined)) freshSocket =
     (freshSocket,
      [Log Warn ''Received large message over forgot-password'', Send (Plain ''Message is too large'')])"
    using big buf [THEN conjunct2, THEN conjunct1] by (simp add: prod_eq_iff)
  have r2: "onForgotPasswordMessage succeeding garbledFrame freshSocket =
     (freshSocket, [Log Error ''Error in forgot-password Websocket''])"
    using g gar [THEN conjunct2, THEN conjunct1] by (simp add: prod_eq_iff)
  have viol: "\<exists>action params.
      readForgotPassword (textFrame 40 (request ''Pong'' JUndefined)) = Some (action, params) \<and>
      action \<noteq> JStr ''ForgotPassword''"
    using other by simp
  have r3: "onForgotPasswordMessage succeeding (textFrame 40 (request ''Pong'' JUndefined)) freshSocket =
     (freshSocket, [Log Error ''Error in forgot-password Websocket''])"
    using small viol oth [THEN conjunct2, THEN conjunct1] by (simp add: prod_eq_iff)
  have r4: "tooLarge FIVE_KB (wideTextFrame 5200 15600 (request ''ForgotPassword'' JUndefined))"
    using wide wid [THEN conjunct2, THEN conjunct2, THEN conjunct2, THEN conjunct1] by simp
  show ?thesis
    using bin wide g small other big r1 r2 r3 r4 by simp
qed

text \<open>
  Claim C6 as stated fails: after each of the three violations the socket is
  still open and \<^verbatim>\<open>ws.terminate()\<close> was not called. Nor is every frame larger
  than 5 KB treated as oversized: a text frame of 6000 bytes in 2000 code units passes
  the size test and is handled by its content.
\<close>

theorem forgot_password_violation_not_terminated:
  "isText (textFrame 6000 (request ''ForgotPassword'' JUndefined)) \<and>
   5 * 1024 < wireBytes (textFrame 6000 (request ''ForgotPassword'' JUndefined)) \<and>
   tooLarge FIVE_KB (textFrame 6000 (request ''ForgotPassword'' JUndefined)) \<and>
   isOpen (fst (onForgotPasswordMessage succeeding
     (textFrame 6000 (request ''ForgotPassword'' JUndefined)) freshSocket)) \<and>
   terminations (snd (onForgotPasswordMessage succeeding
     (textFrame 6000 (request ''ForgotPassword'' JUndefined)) freshSocket)) = 0 \<and>
   parsed garbledFrame = None \<and>
   isOpen (fst (onForgotPasswordMessage succeeding garbledFrame freshSocket)) \<and>
   terminations (snd (onForgotPasswordMessage succeeding garbledFrame freshSocket)) = 0 \<and>
   readForgotPassword (textFrame 40 (request ''Pong'' JUndefined)) = Some (JStr ''Pong'', JUndefined) \<and>
   isOpen (fst (onForgotPasswordMessage succeeding (textFrame 40 (request ''Pong'' JUndefined)) freshSocket)) \<and>
   terminations (snd (onForgotPasswordMessage succeeding
     (textFrame 40 (request ''Pong'' JUndefined)) freshSocket)) = 0 \<and>
   isText (wideTextFrame 2000 6000 (request ''Pong'' JUndefined)) \<and>
   5 * 1024 < wireBytes (wideTextFrame 2000 6000 (request ''Pong'' JUndefined)) \<and>
   \<not> tooLarge FIVE_KB (wideTextFrame 2000 6000 (request ''Pong'' JUndefined)) \<and>
   onForgotPasswordMessage succeeding (wideTextFrame 2000 6000 (request ''Pong'' JUndefined))
     freshSocket = (freshSocket, [Log Error ''Error in forgot-password Websocket''])"
  by (simp add: onForgotPasswordMessage_def readForgotPassword_def fpCaught_def tooLarge_def
      exceeds_def textFrame_def wideTextFrame_def garbledFrame_def request_def FIVE_KB_value
      freshSocket_def isText_def)

section \<open>The heartbeat sweep over time\<close>

lemma pingClient_closes_silent: "\<not> isAlive w \<Longrightarrow> pingClient w = (w\<lparr>isOpen := False\<rparr>, [Terminate])"
  by (simp add: pingClient_def)

lemma mainRun_Nil: "mainRun rt atCapacity s [] = s"
  by (simp add: mainRun_def)

lemma mainRun_Cons: "mainRun rt atCapacity s (x # xs) = mainRun rt atCapacity (mainStep rt atCapacity s x) xs"
  by (simp add: mainRun_def)

lemma mainRun_append:
  "mainRun rt atCapacity s (xs @ ys) = mainRun rt atCapacity (mainRun rt atCapacity s xs) ys"
  by (simp add: mainRun_def)

lemma mainStep_Inbound_live:
  "isOpen (fst s) \<Longrightarrow>
   isOpen (fst (mainStep rt atCapacity s (Inbound ext msg))) \<and>
   isAlive (fst (mainStep rt atCapacity s (Inbound ext msg)))"
  by (simp add: onMessage_isOpen onMessage_isAlive)

lemma mainRun_traffic_live:
  "isOpen (fst s) \<Longrightarrow> isAlive (fst s) \<Longrightarrow> sweeps ys = 0 \<Longrightarrow>
   isOpen (fst (mainRun rt atCapacity s ys)) \<and> isAlive (fst (mainRun rt atCapacity s ys))"
proof (induction ys arbitrary: s)
  case Nil
  then show ?case by (simp add: mainRun_Nil)
next
  case (Cons y ys)
  show ?case
  proof (cases y)
    case (Inbound ext msg)
    have "sweeps ys = 0"
      using Cons.prems(3) Inbound by simp
    then show ?thesis
      using Cons.IH [of "mainStep rt atCapacity s (Inbound ext msg)"]
        mainStep_Inbound_live [OF Cons.prems(1), of rt atCapacity ext msg]
      by (simp add: mainRun_Cons Inbound)
  next
    case Sweep
    then show ?thesis
      using Cons.prems(3) by simp
  qed
qed

lemma mainRun_two_sweeps: "\<not> isOpen (fst (mainRun rt atCapacity s [Sweep, Sweep]))"
  by (simp add: mainRun_def pingClient_def)

lemma mainRun_sweep_after_traffic:
  assumes "isOpen (fst s)" and "sweeps ys = 0"
  shows "isOpen (fst (mainRun rt atCapacity s (Inbound ext msg # ys @ [Sweep])))"
proof -
  let ?t = "mainRun rt atCapacity (mainStep rt atCapacity s (Inbound ext msg)) ys"
  have live: "isOpen (fst ?t) \<and> isAlive (fst ?t)"
    using mainStep_Inbound_live [OF assms(1), of rt atCapacity ext msg] assms(2)
    by (simp add: mainRun_traffic_live)
  have "mainRun rt atCapacity s (Inbound ext msg # ys @ [Sweep]) = mainStep rt atCapacity ?t Sweep"
    by (simp only: mainRun_Cons mainRun_append mainRun_Nil)
  then show ?thesis
    using live by (simp add: pingClient_def)
qed

text \<open>
  Claim C8. The sweep runs every 30000 ms. It treats every member of \<^verbatim>\<open>wss.clients\<close>
  alike: a socket whose liveness flag is false is terminated; any other has its flag set
  to false and is sent a Ping. Hence, after any history, two sweeps with no inbound frame
  between them leave a main-channel socket terminated; and a socket that is open and
  then receives at least one inbound frame (any frame, \<^verbatim>\<open>Pong\<close> included) is still open
  after the next sweep.
\<close>

theorem heartbeat_sweep:
  "PING_INTERVAL_MS = 30 * 1000 \<and>
   length (ping clients) = length clients \<and>
   (\<forall>i<length clients.
      ping clients ! i =
        (if isAlive (clients ! i) = False then ((clients ! i)\<lparr>isOpen := False\<rparr>, [Terminate])
         else ((clients ! i)\<lparr>isAlive := False\<rparr>, [Send PingMsg]))) \<and>
   \<not> isOpen (fst (mainRun rt atCapacity s (xs @ [Sweep, Sweep]))) \<and>
   (isOpen (fst (mainRun rt atCapacity s xs)) \<and> sweeps ys = 0 \<longrightarrow>
      isOpen (fst (mainRun rt atCapacity s (xs @ Inbound ext msg # ys @ [Sweep]))))"
proof -
  have a: "PING_INTERVAL_MS = 30 * 1000"
    by (simp add: PING_INTERVAL_MS_def)
  have b: "\<forall>i<length clients.
      ping clients ! i =
        (if isAlive (clients ! i) = False then ((clients ! i)\<lparr>isOpen := False\<rparr>, [Terminate])
         else ((clients ! i)\<lparr>isAlive := False\<rparr>, [Send PingMsg]))"
    by (simp add: ping_def pingClient_def)
  have c: "\<not> isOpen (fst (mainRun rt atCapacity s (xs @ [Sweep, Sweep])))"
    by (simp only: mainRun_append mainRun_two_sweeps not_False_eq_True)
  have d: "isOpen (fst (mainRun rt atCapacity s xs)) \<and> sweeps ys = 0 \<longrightarrow>
      isOpen (fst (mainRun rt atCapacity s (xs @ Inbound ext msg # ys @ [Sweep])))"
    by (simp only: mainRun_append [of rt atCapacity s xs]) (simp add: mainRun_sweep_after_traffic)
  show ?thesis
    using a b c d by (simp add: ping_def)
qed

theorem heartbeat_sweep_witness:
  "ping [probedSocket, freshSocket] =
     [(probedSocket\<lparr>isOpen := False\<rparr>, [Terminate]), (freshSocket\<lparr>isAlive := False\<rparr>, [Send PingMsg])] \<and>
   \<not> isOpen (fst (mainRun (stackRuntime 4000) budgetAtCapacity (freshSocket, validatedConn 0) [Sweep, Sweep])) \<and>
   isOpen (fst (mainRun (stackRuntime 4000) budgetAtCapacity (freshSocket, validatedConn 0) [Sweep])) \<and>
   isOpen (fst (mainRun (stackRuntime 4000) budgetAtCapacity (freshSocket, validatedConn 0)
     [Sweep, Inbound succeeding (textFrame 40 (request ''Pong'' JUndefined)), Sweep]))"
proof -
  have o: "isOpen (fst (mainRun (stackRuntime 4000) budgetAtCapacity (freshSocket, validatedConn 0) [Sweep]))"
    by (simp add: mainRun_def pingClient_def freshSocket_def)
  have p: "ping [probedSocket, freshSocket] =
     [(probedSocket\<lparr>isOpen := False\<rparr>, [Terminate]), (freshSocket\<lparr>isAlive := False\<rparr>, [Send PingMsg])]"
    by (simp add: ping_def pingClient_def probedSocket_def freshSocket_def)
  show ?thesis
    using heartbeat_sweep [where clients = "[probedSocket, freshSocket]"
        and rt = "stackRuntime 4000" and atCapacity = budgetAtCapacity
        and s = "(freshSocket, validatedConn 0)" and xs = "[]" and ys = "[]" and ext = succeeding
        and msg = "textFrame 40 (request ''Pong'' JUndefined)"]
      heartbeat_sweep [where clients = "[]"
        and rt = "stackRuntime 4000" and atCapacity = budgetAtCapacity
        and s = "(freshSocket, validatedConn 0)" and xs = "[Sweep]" and ys = "[]" and ext = succeeding
        and msg = "textFrame 40 (request ''Pong'' JUndefined)"]
      o p
    by simp
qed

lemma forgotPasswordRun_Nil: "forgotPasswordRun s [] = s"
  by (simp add: forgotPasswordRun_def)

lemma forgotPasswordRun_Cons:
  "forgotPasswordRun s (x # xs) = forgotPasswordRun (forgotPasswordStep s x) xs"
  by (simp add: forgotPasswordRun_def)

lemma forgotPasswordStep_closed: "\<not> isOpen (fst s) \<Longrightarrow> forgotPasswordStep s x = s"
  by (cases x) simp_all

lemma forgotPasswordRun_closed: "\<not> isOpen (fst s) \<Longrightarrow> forgotPasswordRun s xs = s"
  by (induction xs) (simp_all add: forgotPasswordRun_Nil forgotPasswordRun_Cons forgotPasswordStep_closed)

lemma forgotPasswordStep_silent:
  "\<not> isOpen (fst s) \<or> \<not> isAlive (fst s) \<Longrightarrow>
   \<not> isOpen (fst (forgotPasswordStep s x)) \<or> \<not> isAlive (fst (forgotPasswordStep s x))"
  by (cases x) (auto simp: onForgotPasswordMessage_isAlive pingClient_def)

lemma forgotPasswordStep_Sweep_silent:
  "\<not> isOpen (fst (forgotPasswordStep s Sweep)) \<or> \<not> isAlive (fst (forgotPasswordStep s Sweep))"
  by (simp add: pingClient_def)

lemma forgotPasswordStep_Sweep_closes:
  "\<not> isOpen (fst s) \<or> \<not> isAlive (fst s) \<Longrightarrow> \<not> isOpen (fst (forgotPasswordStep s Sweep))"
  by (auto simp: pingClient_def)

lemma forgotPasswordRun_silent:
  "\<not> isOpen (fst s) \<or> \<not> isAlive (fst s) \<Longrightarrow>
   \<not> isOpen (fst (forgotPasswordRun s xs)) \<or> \<not> isAlive (fst (forgotPasswordRun s xs))"
proof (induction xs arbitrary: s)
  case Nil
  then show ?case by (simp add: forgotPasswordRun_Nil)
next
  case (Cons x xs)
  show ?case
    using Cons.IH [OF forgotPasswordStep_silent [OF Cons.prems, of x]]
    by (simp add: forgotPasswordRun_Cons)
qed

lemma forgotPasswordRun_one_sweep:
  "1 \<le> sweeps xs \<Longrightarrow>
   \<not> isOpen (fst (forgotPasswordRun s xs)) \<or> \<not> isAlive (fst (forgotPasswordRun s xs))"
proof (induction xs arbitrary: s)
  case Nil
  then show ?case by simp
next
  case (Cons x xs)
  show ?case
  proof (cases x)
    case (Inbound ext msg)
    then show ?thesis
      using Cons by (simp add: forgotPasswordRun_Cons)
  next
    case Sweep
    show ?thesis
      using forgotPasswordRun_silent [OF forgotPasswordStep_Sweep_silent, of s xs]
      by (simp add: forgotPasswordRun_Cons Sweep)
  qed
qed

lemma forgotPasswordRun_silent_sweep:
  "\<not> isOpen (fst s) \<or> \<not> isAlive (fst s) \<Longrightarrow> 1 \<le> sweeps xs \<Longrightarrow>
   \<not> isOpen (fst (forgotPasswordRun s xs))"
proof (induction xs arbitrary: s)
  case Nil
  then show ?case by simp
next
  case (Cons x xs)
  show ?case
  proof (cases x)
    case (Inbound ext msg)
    have "1 \<le> sweeps xs"
      using Cons.prems(2) Inbound by simp
    then show ?thesis
      using Cons.IH [OF forgotPasswordStep_silent [OF Cons.prems(1), of x]]
      by (simp add: forgotPasswordRun_Cons)
  next
    case Sweep
    have "\<not> isOpen (fst (forgotPasswordStep s Sweep))"
      using Cons.prems(1) by (rule forgotPasswordStep_Sweep_closes)
    then show ?thesis
      by (simp add: forgotPasswordRun_Cons Sweep forgotPasswordRun_closed)
  qed
qed

lemma forgotPasswordRun_two_sweeps:
  "2 \<le> sweeps xs \<Longrightarrow> \<not> isOpen (fst (forgotPasswordRun s xs))"
proof (induction xs arbitrary: s)
  case Nil
  then show ?case by simp
next
  case (Cons x xs)
  show ?case
  proof (cases x)
    case (Inbound ext msg)
    then show ?thesis
      using Cons by (simp add: forgotPasswordRun_Cons)
  next
    case Sweep
    have "1 \<le> sweeps xs"
      using Cons.prems Sweep by simp
    then show ?thesis
      using forgotPasswordRun_silent_sweep [OF forgotPasswordStep_Sweep_silent, of xs s]
      by (simp add: forgotPasswordRun_Cons Sweep)
  qed
qed

text \<open>
  Claim C10. On the forgot-password channel the liveness flag is true when the connection
  handler returns, and the message handler never changes it. Therefore, whatever frames
  arrive and however the collaborators answer, the socket is no longer open once two
  sweeps have run since it was opened; and if it is still open after the first sweep, the
  next sweep is what terminates it.
\<close>

theorem forgot_password_socket_short_lived:
  "isAlive (fst (fst (onForgotPassword ext0))) \<and>
   isAlive (fst (onForgotPasswordMessage ext msg w)) = isAlive w \<and>
   (2 \<le> sweeps xs \<longrightarrow> \<not> isOpen (fst (forgotPasswordRun (fst (onForgotPassword ext0)) xs))) \<and>
   (sweeps xs = 1 \<and> isOpen (fst (forgotPasswordRun (fst (onForgotPassword ext0)) xs)) \<longrightarrow>
      pingClient (fst (forgotPasswordRun (fst (onForgotPassword ext0)) xs)) =
        ((fst (forgotPasswordRun (fst (onForgotPassword ext0)) xs))\<lparr>isOpen := False\<rparr>, [Terminate]))"
proof -
  have a: "isAlive (fst (fst (onForgotPassword ext0)))"
    by (simp add: onForgotPassword_def Let_def split: outcome.splits)
  have c: "sweeps xs = 1 \<and> isOpen (fst (forgotPasswordRun (fst (onForgotPassword ext0)) xs)) \<longrightarrow>
      pingClient (fst (forgotPasswordRun (fst (onForgotPassword ext0)) xs)) =
        ((fst (forgotPasswordRun (fst (onForgotPassword ext0)) xs))\<lparr>isOpen := False\<rparr>, [Terminate])"
    using forgotPasswordRun_one_sweep [of xs "fst (onForgotPassword ext0)"]
    by (auto simp: pingClient_closes_silent)
  show ?thesis
    using a c by (simp add: onForgotPasswordMessage_isAlive forgotPasswordRun_two_sweeps)
qed

theorem forgot_password_socket_short_lived_witness:
  "sweeps [Inbound succeeding garbledFrame, Sweep,
      Inbound failing (textFrame 60 (request ''ForgotPassword'' (JObj []))), Sweep] = 2 \<and>
   \<not> isOpen (fst (forgotPasswordRun (fst (onForgotPassword succeeding))
     [Inbound succeeding garbledFrame, Sweep,
      Inbound failing (textFrame 60 (request ''ForgotPassword'' (JObj []))), Sweep])) \<and>
   sweeps [Inbound succeeding garbledFrame, Sweep,
      Inbound failing (textFrame 60 (request ''ForgotPassword'' (JObj [])))] = 1 \<and>
   isOpen (fst (forgotPasswordRun (fst (onForgotPassword succeeding))
     [Inbound succeeding garbledFrame, Sweep,
      Inbound failing (textFrame 60 (request ''ForgotPassword'' (JObj [])))])) \<and>
   pingClient (fst (forgotPasswordRun (fst (onForgotPassword succeeding))
     [Inbound succeeding garbledFrame, Sweep,
      Inbound failing (textFrame 60 (request ''ForgotPassword'' (JObj [])))])) =
     (\<lparr>isAlive = False, isOpen = False\<rparr>, [Terminate])"
proof -
  let ?xs = "[Inbound succeeding garbledFrame, Sweep,
      Inbound failing (textFrame 60 (request ''ForgotPassword'' (JObj [])))]"
  have st: "forgotPasswordRun (fst (onForgotPassword succeeding)) ?xs =
      (\<lparr>isAlive = False, isOpen = True\<rparr>, True)"
    by (simp add: forgotPasswordRun_def onForgotPassword_def onForgotPasswordMessage_def
        readForgotPassword_def fpCaught_def pingClient_def succeeding_def failing_def
        garbledFrame_def textFrame_def request_def tooLarge_def exceeds_def FIVE_KB_value)
  show ?thesis
    using forgot_password_socket_short_lived [of succeeding succeeding garbledFrame freshSocket
        "?xs @ [Sweep]"]
      forgot_password_socket_short_lived [of succeeding succeeding garbledFrame freshSocket ?xs]
      st
    by simp
qed

end
